theory Spec2Isabelle
  imports Main "HOL-Library.Monad_Syntax"
begin

section \<open>The flyweight demos: Side, Element, ElementContainer, Block\<close>

text \<open>
  The development follows \<^verbatim>\<open>maze/block.cpp\<close>; the classes \<^verbatim>\<open>Element\<close>,
  \<^verbatim>\<open>ElementContainer\<close> and the tables \<^verbatim>\<open>NULL_REPRESENTATIONS\<close> and
  \<^verbatim>\<open>WALL_REPRESENTATIONS\<close> of \<^verbatim>\<open>flyweight/flyweight.cpp\<close> are the same text
  (there \<^verbatim>\<open>Side\<close> is an unscoped enum with the same nine enumerators in the same order).

  Objects reached through pointers live in an explicit store: an address is a natural
  number, a store is a map from addresses to objects, and dereferencing an address that
  holds no live object is undefined behaviour, which the model returns as \<open>None\<close>.
  The null pointer is not given an address of its own: the constructor fills every cell
  from \<^verbatim>\<open>new\<close>, and \<^verbatim>\<open>setContainer\<close> dereferences its argument before it stores it,
  so no cell comes to hold one.
  The \<^verbatim>\<open>int\<close> values of the program (grid indices and the position tag) are never
  calculated with, apart from the loop counters that run from 0 to 3, so they are
  modelled as \<open>int\<close>.
\<close>

subsection \<open>Helpers\<close>

definition BLOCK_SIZE :: int where
  "BLOCK_SIZE = 3"

datatype Side =
    NORTH_WEST
  | NORTH
  | NORTH_EAST
  | WEST
  | CENTER
  | EAST
  | SOUTH_WEST
  | SOUTH
  | SOUTH_EAST

text \<open>
  \<^verbatim>\<open>std::map::operator[]\<close>: the value stored under the key; when the key is absent,
  a value-initialised entry is inserted first and that value is returned. The first
  argument is the value-initialised value of the mapped type.
\<close>

definition subscript :: "'v \<Rightarrow> ('k \<rightharpoonup> 'v) \<Rightarrow> 'k \<Rightarrow> 'v \<times> ('k \<rightharpoonup> 'v)" where
  "subscript dflt m k =
     (case m k of
        Some v \<Rightarrow> (v, m)
      | None \<Rightarrow> (dflt, m(k \<mapsto> dflt)))"

text \<open>The initialisers of the global tables \<^verbatim>\<open>side_map\<close> and \<^verbatim>\<open>reverse_side_map\<close>.\<close>

definition side_map_init :: "Side \<rightharpoonup> int \<times> int" where
  "side_map_init =
     [NORTH \<mapsto> (0, 1),
      NORTH_EAST \<mapsto> (0, 2),
      EAST \<mapsto> (1, 2),
      CENTER \<mapsto> (1, 1),
      SOUTH_EAST \<mapsto> (2, 2),
      SOUTH \<mapsto> (2, 1),
      SOUTH_WEST \<mapsto> (2, 0),
      WEST \<mapsto> (1, 0),
      NORTH_WEST \<mapsto> (0, 0)]"

definition reverse_side_map_init :: "int \<times> int \<rightharpoonup> Side" where
  "reverse_side_map_init =
     [(0, 1) \<mapsto> NORTH,
      (0, 2) \<mapsto> NORTH_EAST,
      (1, 1) \<mapsto> CENTER,
      (1, 2) \<mapsto> EAST,
      (2, 2) \<mapsto> SOUTH_EAST,
      (2, 1) \<mapsto> SOUTH,
      (2, 0) \<mapsto> SOUTH_WEST,
      (1, 0) \<mapsto> WEST,
      (0, 0) \<mapsto> NORTH_WEST]"

subsection \<open>Element\<close>

record Element =
  representations :: "Side \<rightharpoonup> string"

definition Element_ctor :: "(Side \<rightharpoonup> string) \<Rightarrow> Element" where
  "Element_ctor reprs = \<lparr>representations = reprs\<rparr>"

text \<open>
  \<^verbatim>\<open>Element::repr\<close> returns \<^verbatim>\<open>representations[key]\<close>. The member function is not
  \<^verbatim>\<open>const\<close> and \<^verbatim>\<open>operator[]\<close> may insert, so the element is returned as well.
\<close>

definition Element_repr :: "Side \<Rightarrow> Element \<Rightarrow> string \<times> Element" where
  "Element_repr key el =
     (let (v, m) = subscript [] (representations el) key
      in (v, el\<lparr>representations := m\<rparr>))"

text \<open>
  The filled glyph of the source is the character U+25A0, which a \<^verbatim>\<open>std::string\<close>
  holds as its three UTF-8 bytes.
\<close>

abbreviation filled :: string where
  "filled \<equiv> [CHR 0xE2, CHR 0x96, CHR 0xA0]"

abbreviation blank :: string where
  "blank \<equiv> '' ''"

definition NULL_REPRESENTATIONS :: "Side \<rightharpoonup> string" where
  "NULL_REPRESENTATIONS =
     [NORTH \<mapsto> [],
      NORTH_EAST \<mapsto> [],
      EAST \<mapsto> [],
      SOUTH_EAST \<mapsto> [],
      SOUTH \<mapsto> [],
      SOUTH_WEST \<mapsto> [],
      WEST \<mapsto> [],
      NORTH_WEST \<mapsto> []]"

definition WALL_REPRESENTATIONS :: "Side \<rightharpoonup> string" where
  "WALL_REPRESENTATIONS =
     [NORTH \<mapsto> filled,
      NORTH_EAST \<mapsto> filled,
      EAST \<mapsto> filled,
      SOUTH_EAST \<mapsto> filled,
      SOUTH \<mapsto> filled,
      SOUTH_WEST \<mapsto> filled,
      WEST \<mapsto> filled,
      NORTH_WEST \<mapsto> filled,
      CENTER \<mapsto> blank]"

definition FLOOR_REPRESENTATIONS :: "Side \<rightharpoonup> string" where
  "FLOOR_REPRESENTATIONS =
     [NORTH \<mapsto> blank,
      NORTH_EAST \<mapsto> blank,
      EAST \<mapsto> blank,
      SOUTH_EAST \<mapsto> blank,
      SOUTH \<mapsto> blank,
      SOUTH_WEST \<mapsto> blank,
      WEST \<mapsto> blank,
      NORTH_WEST \<mapsto> blank,
      CENTER \<mapsto> blank]"

text \<open>
  The global pointers \<^verbatim>\<open>NULL_ELEMENT\<close>, \<^verbatim>\<open>WALL_ELEMENT\<close> and \<^verbatim>\<open>FLOOR_ELEMENT\<close>
  are never reassigned: they are the addresses of the three elements that the static
  initialisers allocate, in this order.
\<close>

definition NULL_ELEMENT :: nat where
  "NULL_ELEMENT = 0"

definition WALL_ELEMENT :: nat where
  "WALL_ELEMENT = 1"

definition FLOOR_ELEMENT :: nat where
  "FLOOR_ELEMENT = 2"

subsection \<open>The program state\<close>

record ElementContainer =
  state :: Side
  el_proxy :: nat

text \<open>
  The mutable globals, the two stores, the allocator (the next address that \<^verbatim>\<open>new\<close>
  hands out for a container; addresses are not reused) and the text written to
  \<^verbatim>\<open>std::cout\<close> so far.
\<close>

record world =
  side_map :: "Side \<rightharpoonup> int \<times> int"
  reverse_side_map :: "int \<times> int \<rightharpoonup> Side"
  elements :: "nat \<rightharpoonup> Element"
  containers :: "nat \<rightharpoonup> ElementContainer"
  fresh :: nat
  cout :: string

text \<open>The state when \<^verbatim>\<open>main\<close> is entered, after static initialisation.\<close>

definition initial_world :: world where
  "initial_world =
     \<lparr>side_map = side_map_init,
      reverse_side_map = reverse_side_map_init,
      elements =
        [NULL_ELEMENT \<mapsto> Element_ctor NULL_REPRESENTATIONS,
         WALL_ELEMENT \<mapsto> Element_ctor WALL_REPRESENTATIONS,
         FLOOR_ELEMENT \<mapsto> Element_ctor FLOOR_REPRESENTATIONS],
      containers = Map.empty,
      fresh = 0,
      cout = []\<rparr>"

definition index_to_side :: "int \<Rightarrow> int \<Rightarrow> world \<Rightarrow> Side \<times> world" where
  "index_to_side x y w =
     (let query_pos = (x, y);
          (s, m) = subscript NORTH_WEST (reverse_side_map w) query_pos
      in (s, w\<lparr>reverse_side_map := m\<rparr>))"

definition side_to_index :: "Side \<Rightarrow> world \<Rightarrow> (int \<times> int) \<times> world" where
  "side_to_index s w =
     (let (p, m) = subscript (0, 0) (side_map w) s
      in (p, w\<lparr>side_map := m\<rparr>))"

subsection \<open>ElementContainer\<close>

text \<open>
  \<^verbatim>\<open>new ElementContainer(side, el)\<close>: the constructor sets the side and the element
  of the object that \<^verbatim>\<open>new\<close> allocates; the result is its address.
\<close>

definition new_ElementContainer :: "Side \<Rightarrow> nat \<Rightarrow> world \<Rightarrow> nat \<times> world" where
  "new_ElementContainer side el w =
     (fresh w,
      w\<lparr>containers := (containers w)(fresh w \<mapsto> \<lparr>state = side, el_proxy = el\<rparr>),
        fresh := Suc (fresh w)\<rparr>)"

text \<open>The subclasses only supply the default of the element argument.\<close>

definition new_NullContainer :: "Side \<Rightarrow> world \<Rightarrow> nat \<times> world" where
  "new_NullContainer side w = new_ElementContainer side NULL_ELEMENT w"

definition new_WallContainer :: "Side \<Rightarrow> world \<Rightarrow> nat \<times> world" where
  "new_WallContainer side w = new_ElementContainer side WALL_ELEMENT w"

definition new_FloorContainer :: "Side \<Rightarrow> world \<Rightarrow> nat \<times> world" where
  "new_FloorContainer side w = new_ElementContainer side FLOOR_ELEMENT w"

definition getSide :: "nat \<Rightarrow> world \<Rightarrow> Side option" where
  "getSide this w =
     (case containers w this of
        None \<Rightarrow> None
      | Some c \<Rightarrow> Some (state c))"

definition setSide :: "nat \<Rightarrow> Side \<Rightarrow> world \<Rightarrow> world option" where
  "setSide this side w =
     (case containers w this of
        None \<Rightarrow> None
      | Some c \<Rightarrow> Some (w\<lparr>containers := (containers w)(this \<mapsto> c\<lparr>state := side\<rparr>)\<rparr>))"

definition setElement :: "nat \<Rightarrow> nat \<Rightarrow> world \<Rightarrow> world option" where
  "setElement this el w =
     (case containers w this of
        None \<Rightarrow> None
      | Some c \<Rightarrow> Some (w\<lparr>containers := (containers w)(this \<mapsto> c\<lparr>el_proxy := el\<rparr>)\<rparr>))"

text \<open>
  \<^verbatim>\<open>ElementContainer::repr\<close> calls \<^verbatim>\<open>el_proxy->repr(state)\<close>; the element it points
  to is shared, and what \<^verbatim>\<open>Element::repr\<close> does to it is written back to the store.
\<close>

definition ElementContainer_repr :: "nat \<Rightarrow> world \<Rightarrow> (string \<times> world) option" where
  "ElementContainer_repr this w =
     (case containers w this of
        None \<Rightarrow> None
      | Some c \<Rightarrow>
          (case elements w (el_proxy c) of
             None \<Rightarrow> None
           | Some e \<Rightarrow>
               (let (v, e') = Element_repr (state c) e
                in Some (v, w\<lparr>elements := (elements w)(el_proxy c \<mapsto> e')\<rparr>))))"

text \<open>\<^verbatim>\<open>delete p\<close> for a container: the object must be live, and is gone afterwards.\<close>

definition delete_container :: "nat \<Rightarrow> world \<Rightarrow> world option" where
  "delete_container p w =
     (case containers w p of
        None \<Rightarrow> None
      | Some c \<Rightarrow> Some (w\<lparr>containers := (containers w)(p := None)\<rparr>))"

subsection \<open>Block\<close>

text \<open>
  The grid \<^verbatim>\<open>ElementContainer* grid[3][3]\<close> is a list of three rows of three
  addresses. The position fields are not initialised by the constructor: \<open>None\<close> is the
  indeterminate value. The one \<^verbatim>\<open>Block\<close> of the program is reached through a single
  pointer only, so it is passed as a value.
\<close>

record Block =
  grid :: "nat list list"
  pos_x :: "int option"
  pos_y :: "int option"

text \<open>
  The inner loop of the constructor, from column \<open>j\<close> on: the cells of row \<open>i\<close>. The
  two loops assign every cell of the array, so the model builds the rows cell by cell.
\<close>

function Block_fill_row :: "int \<Rightarrow> int \<Rightarrow> world \<Rightarrow> nat list \<times> world" where
  "Block_fill_row i j w =
     (if j < BLOCK_SIZE then
        (let (mapped_side, w1) = index_to_side i j w;
             (p, w2) = new_NullContainer mapped_side w1;
             (row, w3) = Block_fill_row i (j + 1) w2
         in (p # row, w3))
      else ([], w))"
  by pat_completeness auto
termination
  by (relation "measure (\<lambda>(i, j, w). nat (BLOCK_SIZE - j))") auto

text \<open>The outer loop of the constructor, from row \<open>i\<close> on.\<close>

function Block_fill :: "int \<Rightarrow> world \<Rightarrow> nat list list \<times> world" where
  "Block_fill i w =
     (if i < BLOCK_SIZE then
        (let (row, w1) = Block_fill_row i 0 w;
             (rows, w2) = Block_fill (i + 1) w1
         in (row # rows, w2))
      else ([], w))"
  by pat_completeness auto
termination
  by (relation "measure (\<lambda>(i, w). nat (BLOCK_SIZE - i))") auto

definition Block_ctor :: "world \<Rightarrow> Block \<times> world" where
  "Block_ctor w =
     (let (g, w') = Block_fill 0 w
      in (\<lparr>grid = g, pos_x = None, pos_y = None\<rparr>, w'))"

text \<open>\<^verbatim>\<open>grid[x][y]\<close>: an index outside the array is undefined behaviour.\<close>

definition getElement :: "int \<Rightarrow> int \<Rightarrow> Block \<Rightarrow> nat option" where
  "getElement x y b =
     (if 0 \<le> x \<and> x < BLOCK_SIZE \<and> 0 \<le> y \<and> y < BLOCK_SIZE
      then Some (grid b ! nat x ! nat y)
      else None)"

definition setContainer :: "nat \<Rightarrow> Block \<Rightarrow> world \<Rightarrow> (Block \<times> world) option" where
  "setContainer el b w = do {
     el_side \<leftarrow> getSide el w;
     let (mapped_index, w1) = side_to_index el_side w;
     let x = fst mapped_index;
     let y = snd mapped_index;
     curr_el \<leftarrow> getElement x y b;
     w2 \<leftarrow> delete_container curr_el w1;
     Some (b\<lparr>grid := (grid b)[nat x := (grid b ! nat x)[nat y := el]]\<rparr>, w2)
   }"

text \<open>The inner loop of \<^verbatim>\<open>render\<close>: each item's glyph, followed by a space.\<close>

fun render_row :: "nat list \<Rightarrow> world \<Rightarrow> world option" where
  "render_row [] w = Some w"
| "render_row (item # row) w = do {
     (v, w1) \<leftarrow> ElementContainer_repr item w;
     render_row row (w1\<lparr>cout := cout w1 @ v @ '' ''\<rparr>)
   }"

text \<open>The outer loop: each row, followed by \<^verbatim>\<open>std::endl\<close>.\<close>

fun render_rows :: "nat list list \<Rightarrow> world \<Rightarrow> world option" where
  "render_rows [] w = Some w"
| "render_rows (row # rows) w = do {
     w1 \<leftarrow> render_row row w;
     render_rows rows (w1\<lparr>cout := cout w1 @ [CHR 0x0A]\<rparr>)
   }"

definition render :: "Block \<Rightarrow> world \<Rightarrow> world option" where
  "render b w = render_rows (grid b) w"

definition setPosition :: "int \<Rightarrow> int \<Rightarrow> Block \<Rightarrow> Block" where
  "setPosition x y b = b\<lparr>pos_x := Some x, pos_y := Some y\<rparr>"

definition getPosition :: "Block \<Rightarrow> (int \<times> int) option" where
  "getPosition b = do {
     x \<leftarrow> pos_x b;
     y \<leftarrow> pos_y b;
     Some (x, y)
   }"

subsection \<open>The demo\<close>

definition main :: "world \<Rightarrow> world option" where
  "main w0 = do {
     let (new_block, w) = Block_ctor w0;
     let (c, w) = new_WallContainer NORTH_WEST w;
     (new_block, w) \<leftarrow> setContainer c new_block w;
     let (c, w) = new_WallContainer NORTH w;
     (new_block, w) \<leftarrow> setContainer c new_block w;
     let (c, w) = new_WallContainer NORTH_EAST w;
     (new_block, w) \<leftarrow> setContainer c new_block w;
     let (c, w) = new_WallContainer WEST w;
     (new_block, w) \<leftarrow> setContainer c new_block w;
     let (c, w) = new_FloorContainer CENTER w;
     (new_block, w) \<leftarrow> setContainer c new_block w;
     let (c, w) = new_WallContainer EAST w;
     (new_block, w) \<leftarrow> setContainer c new_block w;
     let (c, w) = new_WallContainer SOUTH_WEST w;
     (new_block, w) \<leftarrow> setContainer c new_block w;
     let (c, w) = new_WallContainer SOUTH w;
     (new_block, w) \<leftarrow> setContainer c new_block w;
     let (c, w) = new_WallContainer SOUTH_EAST w;
     (new_block, w) \<leftarrow> setContainer c new_block w;
     render new_block w
   }"

text \<open>
  One statement of the demo, \<^verbatim>\<open>new_block->setContainer(new WallContainer(side))\<close>, and
  the demo's choice of the container: a floor container at \<^verbatim>\<open>CENTER\<close>, a wall
  container elsewhere. \<open>demo_installs\<close> runs such statements for a list of sides.
\<close>

definition install_new ::
  "(Side \<Rightarrow> world \<Rightarrow> nat \<times> world) \<Rightarrow> Side \<Rightarrow> Block \<times> world \<Rightarrow> (Block \<times> world) option" where
  "install_new new_container side bw =
     (let (c, w) = new_container side (snd bw)
      in setContainer c (fst bw) w)"

definition demo_install :: "Side \<Rightarrow> Block \<times> world \<Rightarrow> (Block \<times> world) option" where
  "demo_install side bw =
     (if side = CENTER then install_new new_FloorContainer side bw
      else install_new new_WallContainer side bw)"

fun demo_installs :: "Side list \<Rightarrow> Block \<times> world \<Rightarrow> (Block \<times> world) option" where
  "demo_installs [] bw = Some bw"
| "demo_installs (side # sides) bw = do {
     bw' \<leftarrow> demo_install side bw;
     demo_installs sides bw'
   }"

subsection \<open>Well-formed states\<close>

text \<open>
  The tables hold what their initialisers put there: \<^verbatim>\<open>side_map\<close> has an entry for
  each of the nine sides, so \<^verbatim>\<open>operator[]\<close> never inserts into it, and an insertion into
  \<^verbatim>\<open>reverse_side_map\<close> (a lookup outside the grid) leaves the nine entries as they are.
\<close>

definition tables_intact :: "world \<Rightarrow> bool" where
  "tables_intact w \<longleftrightarrow>
     side_map w = side_map_init \<and> reverse_side_map_init \<subseteq>\<^sub>m reverse_side_map w"

text \<open>The allocator has handed out every address that holds a live container.\<close>

definition world_ok :: "world \<Rightarrow> bool" where
  "world_ok w \<longleftrightarrow> tables_intact w \<and> (\<forall>p\<in>dom (containers w). p < fresh w)"

text \<open>The null element is live and each glyph it holds is the empty string.\<close>

definition null_element_blank :: "world \<Rightarrow> bool" where
  "null_element_blank w \<longleftrightarrow>
     (case elements w NULL_ELEMENT of
        None \<Rightarrow> False
      | Some e \<Rightarrow> \<forall>s. representations e s = None \<or> representations e s = Some [])"

text \<open>The wall and the floor element are live and hold what they were constructed with.\<close>

definition demo_elements :: "world \<Rightarrow> bool" where
  "demo_elements w \<longleftrightarrow>
     elements w WALL_ELEMENT = Some (Element_ctor WALL_REPRESENTATIONS)
     \<and> elements w FLOOR_ELEMENT = Some (Element_ctor FLOOR_REPRESENTATIONS)"

text \<open>The grid has \<^verbatim>\<open>BLOCK_SIZE\<close> rows of \<^verbatim>\<open>BLOCK_SIZE\<close> cells, as the array type says.\<close>

definition grid_shape :: "Block \<Rightarrow> bool" where
  "grid_shape b \<longleftrightarrow>
     length (grid b) = nat BLOCK_SIZE \<and> list_all (\<lambda>row. length row = nat BLOCK_SIZE) (grid b)"

text \<open>
  Placement consistency: each cell \<open>(r, c)\<close> points to a live container, and the side
  stored in that container is mapped to \<open>(r, c)\<close> by \<^verbatim>\<open>side_to_index\<close>.
\<close>

definition placement_consistent :: "Block \<Rightarrow> world \<Rightarrow> bool" where
  "placement_consistent b w \<longleftrightarrow>
     (\<forall>r\<in>{0, 1, 2}. \<forall>c\<in>{0, 1, 2}.
        case getElement r c b of
          None \<Rightarrow> False
        | Some p \<Rightarrow>
            (case getSide p w of
               None \<Rightarrow> False
             | Some s \<Rightarrow> fst (side_to_index s w) = (r, c)))"

text \<open>
  The cells during the demo: each is placement-consistent, and each cell whose side is
  in \<open>S\<close> holds a container of the demo's choice for that side.
\<close>

definition demo_element :: "Side \<Rightarrow> nat" where
  "demo_element s = (if s = CENTER then FLOOR_ELEMENT else WALL_ELEMENT)"

definition demo_cells :: "Side set \<Rightarrow> Block \<Rightarrow> world \<Rightarrow> bool" where
  "demo_cells S b w \<longleftrightarrow>
     (\<forall>r\<in>{0, 1, 2}. \<forall>c\<in>{0, 1, 2}.
        case getElement r c b of
          None \<Rightarrow> False
        | Some p \<Rightarrow>
            (case containers w p of
               None \<Rightarrow> False
             | Some k \<Rightarrow>
                 side_map_init (state k) = Some (r, c)
                 \<and> (state k \<in> S \<longrightarrow> el_proxy k = demo_element (state k))))"

text \<open>Which containers a caller passes to \<^verbatim>\<open>setContainer\<close>: any, or only one that the
  block does not hold yet.\<close>

definition any_container :: "nat \<Rightarrow> Block \<Rightarrow> world \<Rightarrow> bool" where
  "any_container el b w \<longleftrightarrow> True"

definition not_held :: "nat \<Rightarrow> Block \<Rightarrow> world \<Rightarrow> bool" where
  "not_held el b w \<longleftrightarrow> el \<notin> set (concat (grid b))"

text \<open>
  The blocks and states that a caller reaches from the constructor by calls of
  \<^verbatim>\<open>setContainer\<close> that return, allocating the containers it passes; \<open>allowed\<close> says
  which containers it may pass.
\<close>

inductive reachable :: "(nat \<Rightarrow> Block \<Rightarrow> world \<Rightarrow> bool) \<Rightarrow> Block \<Rightarrow> world \<Rightarrow> bool"
  for allowed :: "nat \<Rightarrow> Block \<Rightarrow> world \<Rightarrow> bool" where
  construct: "world_ok w0 \<Longrightarrow> Block_ctor w0 = (b, w) \<Longrightarrow> reachable allowed b w"
| allocate: "reachable allowed b w \<Longrightarrow> new_ElementContainer side el w = (p, w') \<Longrightarrow>
     reachable allowed b w'"
| install: "reachable allowed b w \<Longrightarrow> allowed el b w \<Longrightarrow>
     setContainer el b w = Some (b', w') \<Longrightarrow> reachable allowed b' w'"

text \<open>The rows of a text: its lines, each ended by the newline that \<^verbatim>\<open>std::endl\<close> writes.\<close>

fun output_lines :: "string \<Rightarrow> string list" where
  "output_lines [] = []"
| "output_lines (c # cs) =
     (if c = CHR 0x0A then [] # output_lines cs
      else (case output_lines cs of
              [] \<Rightarrow> [[c]]
            | l # ls \<Rightarrow> (c # l) # ls))"

text \<open>
  Short runs for concrete instances: a fresh block at the entry state; a new wall
  container for \<^verbatim>\<open>NORTH\<close> and its installation; a call of \<^verbatim>\<open>setContainer\<close> with
  the occupant that \<^verbatim>\<open>getElement(0, 0)\<close> returns; and, after that call, the
  installation of a new wall container for \<^verbatim>\<open>NORTH_WEST\<close>.
\<close>

definition demo_block :: "Block \<times> world" where
  "demo_block = Block_ctor initial_world"

definition demo_wall :: "nat \<times> world" where
  "demo_wall = new_WallContainer NORTH (snd demo_block)"

definition install_wall_demo :: "(Block \<times> world) option" where
  "install_wall_demo = setContainer (fst demo_wall) (fst demo_block) (snd demo_wall)"

definition reinstall_demo :: "(Block \<times> world) option" where
  "reinstall_demo = do {
     p \<leftarrow> getElement 0 0 (fst demo_block);
     setContainer p (fst demo_block) (snd demo_block)
   }"


section \<open>Properties\<close>

subsection \<open>The two tables\<close>


lemma side_map_init_total: "\<exists>p. side_map_init s = Some p"
  by (cases s) (simp_all add: side_map_init_def)

lemma side_to_index_intact:
  "side_map w = side_map_init \<Longrightarrow> side_to_index s w = (the (side_map_init s), w)"
  using side_map_init_total [of s] by (auto simp: side_to_index_def subscript_def)

lemma side_map_init_range:
  "side_map_init s = Some (x, y) \<Longrightarrow> x \<in> {0, 1, 2} \<and> y \<in> {0, 1, 2}"
  by (cases s) (simp_all add: side_map_init_def)

lemma reverse_of_side_map_init:
  "side_map_init s = Some p \<Longrightarrow> reverse_side_map_init p = Some s"
  by (cases s) (auto simp: side_map_init_def reverse_side_map_init_def)

lemma side_of_reverse_map_init:
  "reverse_side_map_init p = Some s \<Longrightarrow> side_map_init s = Some p"
  by (auto simp: side_map_init_def reverse_side_map_init_def split: if_splits)

lemma reverse_side_map_init_dom:
  "r \<in> {0, 1, 2} \<Longrightarrow> c \<in> {0, 1, 2} \<Longrightarrow> \<exists>s. reverse_side_map_init (r, c) = Some s"
  by (auto simp: reverse_side_map_init_def)

lemma index_to_side_intact:
  "reverse_side_map_init \<subseteq>\<^sub>m reverse_side_map w \<Longrightarrow> reverse_side_map_init (r, c) = Some s \<Longrightarrow>
   index_to_side r c w = (s, w)"
  by (auto simp: index_to_side_def subscript_def map_le_def dom_def split: option.splits)

text \<open>
  C4. In every state whose tables are intact, the mapping between sides and coordinates is
  a bijection between the nine sides and the nine coordinates of \<open>{0,1,2} \<times> {0,1,2}\<close>:
  \<^verbatim>\<open>side_to_index(index_to_side(r, c))\<close> is \<open>(r, c)\<close> for each of the nine coordinates,
  and \<^verbatim>\<open>index_to_side(side_to_index(s))\<close> is \<open>s\<close> for each side. The calls are chained
  through the state, as the program would make them.
\<close>

theorem side_coordinate_bijection:
  assumes "tables_intact w"
  shows "(\<forall>r\<in>{0, 1, 2}. \<forall>c\<in>{0, 1, 2}.
            fst (side_to_index (fst (index_to_side r c w)) (snd (index_to_side r c w))) = (r, c))
       \<and> (\<forall>s. fst (index_to_side (fst (fst (side_to_index s w))) (snd (fst (side_to_index s w)))
                      (snd (side_to_index s w))) = s)
       \<and> bij_betw (\<lambda>s. fst (side_to_index s w)) UNIV ({0, 1, 2} \<times> {0, 1, 2})"
proof (intro conjI ballI allI)
  from assms have sm: "side_map w = side_map_init"
    and rm: "reverse_side_map_init \<subseteq>\<^sub>m reverse_side_map w"
    by (simp_all add: tables_intact_def)
  {
    fix r c :: int
    assume "r \<in> {0, 1, 2}" "c \<in> {0, 1, 2}"
    then obtain s where s: "reverse_side_map_init (r, c) = Some s"
      using reverse_side_map_init_dom by blast
    then show "fst (side_to_index (fst (index_to_side r c w)) (snd (index_to_side r c w))) = (r, c)"
      using index_to_side_intact [OF rm s] side_to_index_intact [OF sm, of s]
        side_of_reverse_map_init [OF s] by simp
  }
  {
    fix s
    obtain p where p: "side_map_init s = Some p"
      using side_map_init_total by blast
    then show "fst (index_to_side (fst (fst (side_to_index s w))) (snd (fst (side_to_index s w)))
                      (snd (side_to_index s w))) = s"
      using side_to_index_intact [OF sm, of s] reverse_of_side_map_init [OF p]
        index_to_side_intact [OF rm, of "fst p" "snd p" s] by simp
  }
  show "bij_betw (\<lambda>s. fst (side_to_index s w)) UNIV ({0, 1, 2} \<times> {0, 1, 2})"
    unfolding bij_betw_def
  proof
    show "inj (\<lambda>s. fst (side_to_index s w))"
    proof (rule injI)
      fix s t
      assume e: "fst (side_to_index s w) = fst (side_to_index t w)"
      obtain p q where "side_map_init s = Some p" "side_map_init t = Some q"
        using side_map_init_total by blast
      with e have "p = q"
        using side_to_index_intact [OF sm, of s] side_to_index_intact [OF sm, of t] by simp
      with \<open>side_map_init s = Some p\<close> \<open>side_map_init t = Some q\<close> show "s = t"
        using reverse_of_side_map_init [of s p] reverse_of_side_map_init [of t q] by simp
    qed
    show "range (\<lambda>s. fst (side_to_index s w)) = {0, 1, 2} \<times> {0, 1, 2}"
    proof (intro equalityI subsetI)
      fix p assume "p \<in> range (\<lambda>s. fst (side_to_index s w))"
      then obtain s where "p = the (side_map_init s)"
        using side_to_index_intact [OF sm] by auto
      then show "p \<in> {0, 1, 2} \<times> {0, 1, 2}"
        using side_map_init_total [of s] side_map_init_range [of s "fst p" "snd p"] by auto
    next
      fix p :: "int \<times> int" assume "p \<in> {0, 1, 2} \<times> {0, 1, 2}"
      then obtain s where "reverse_side_map_init p = Some s"
        using reverse_side_map_init_dom [of "fst p" "snd p"] by auto
      then have "fst (side_to_index s w) = p"
        using side_to_index_intact [OF sm, of s] side_of_reverse_map_init by simp
      then show "p \<in> range (\<lambda>s. fst (side_to_index s w))" by blast
    qed
  qed
qed

text \<open>The state at the entry of \<^verbatim>\<open>main\<close> has intact tables.\<close>

lemma tables_intact_initial: "tables_intact initial_world"
  by (simp add: tables_intact_def initial_world_def)

text \<open>The bijection at the entry state, for the coordinate \<open>(0, 1)\<close> and the side \<^verbatim>\<open>SOUTH_EAST\<close>.\<close>

theorem side_coordinate_bijection_witness:
  "fst (side_to_index (fst (index_to_side 0 1 initial_world)) (snd (index_to_side 0 1 initial_world))) = (0, 1)
   \<and> fst (index_to_side (fst (fst (side_to_index SOUTH_EAST initial_world)))
            (snd (fst (side_to_index SOUTH_EAST initial_world)))
            (snd (side_to_index SOUTH_EAST initial_world))) = SOUTH_EAST
   \<and> fst (side_to_index SOUTH_EAST initial_world) = (2, 2)"
proof -
  have t: "tables_intact initial_world"
    by (simp add: tables_intact_def initial_world_def)
  note b = side_coordinate_bijection [OF t]
  from b have 1: "fst (side_to_index (fst (index_to_side 0 1 initial_world))
      (snd (index_to_side 0 1 initial_world))) = (0, 1)"
    by simp
  from b have "\<forall>s. fst (index_to_side (fst (fst (side_to_index s initial_world)))
      (snd (fst (side_to_index s initial_world))) (snd (side_to_index s initial_world))) = s"
    by simp
  then have 2: "fst (index_to_side (fst (fst (side_to_index SOUTH_EAST initial_world)))
      (snd (fst (side_to_index SOUTH_EAST initial_world)))
      (snd (side_to_index SOUTH_EAST initial_world))) = SOUTH_EAST"
    by (rule spec)
  have 3: "fst (side_to_index SOUTH_EAST initial_world) = (2, 2)"
    by (simp add: side_to_index_def subscript_def initial_world_def side_map_init_def)
  from 1 2 3 show ?thesis by (intro conjI)
qed



subsection \<open>Element lookups\<close>

text \<open>
  C5. For every element and every side that has no entry in the element's mapping,
  \<^verbatim>\<open>Element::repr\<close> returns the empty string. The lookup has no failing branch: the
  model of \<^verbatim>\<open>repr\<close> is a total function with no error value.
\<close>

theorem repr_absent_key_default:
  "representations el key = None \<Longrightarrow> fst (Element_repr key el) = []"
  by (simp add: Element_repr_def subscript_def)

text \<open>The null element has no entry for \<^verbatim>\<open>CENTER\<close>, and its lookup there is empty.\<close>

theorem repr_absent_key_default_witness:
  "representations (Element_ctor NULL_REPRESENTATIONS) CENTER = None
   \<and> fst (Element_repr CENTER (Element_ctor NULL_REPRESENTATIONS)) = []"
proof -
  have h: "representations (Element_ctor NULL_REPRESENTATIONS) CENTER = None"
    by (simp add: Element_ctor_def NULL_REPRESENTATIONS_def)
  from h repr_absent_key_default [OF h] show ?thesis by (intro conjI)
qed

text \<open>
  C6. The wall element is the one that \<^verbatim>\<open>WALL_ELEMENT\<close> points to, and for each of the
  nine sides its lookup returns the filled glyph, except for \<^verbatim>\<open>CENTER\<close>, where it
  returns the blank glyph.
\<close>

theorem wall_repr:
  "elements initial_world WALL_ELEMENT = Some (Element_ctor WALL_REPRESENTATIONS)
   \<and> fst (Element_repr s (Element_ctor WALL_REPRESENTATIONS)) =
       (if s = CENTER then blank else filled)"
  by (cases s)
    (simp_all add: initial_world_def NULL_ELEMENT_def WALL_ELEMENT_def FLOOR_ELEMENT_def
      Element_repr_def subscript_def Element_ctor_def WALL_REPRESENTATIONS_def)

text \<open>
  C7. The floor element is the one that \<^verbatim>\<open>FLOOR_ELEMENT\<close> points to, and for each of
  the nine sides its lookup returns the blank glyph.
\<close>

theorem floor_repr:
  "elements initial_world FLOOR_ELEMENT = Some (Element_ctor FLOOR_REPRESENTATIONS)
   \<and> fst (Element_repr s (Element_ctor FLOOR_REPRESENTATIONS)) = blank"
  by (cases s)
    (simp_all add: initial_world_def NULL_ELEMENT_def WALL_ELEMENT_def FLOOR_ELEMENT_def
      Element_repr_def subscript_def Element_ctor_def FLOOR_REPRESENTATIONS_def)

text \<open>
  C8, as stated, fails: a lookup of \<^verbatim>\<open>CENTER\<close> on the null element leaves the
  element with a mapping that differs from the one it was constructed with, because
  \<^verbatim>\<open>operator[]\<close> inserts the missing key.
\<close>

theorem repr_inserts_absent_key:
  "representations (snd (Element_repr CENTER (Element_ctor NULL_REPRESENTATIONS)))
     \<noteq> representations (Element_ctor NULL_REPRESENTATIONS)"
proof
  assume "representations (snd (Element_repr CENTER (Element_ctor NULL_REPRESENTATIONS)))
     = representations (Element_ctor NULL_REPRESENTATIONS)"
  then have "representations (snd (Element_repr CENTER (Element_ctor NULL_REPRESENTATIONS))) CENTER
     = representations (Element_ctor NULL_REPRESENTATIONS) CENTER"
    by simp
  then show False
    by (simp add: Element_repr_def subscript_def Element_ctor_def NULL_REPRESENTATIONS_def)
qed

text \<open>
  C8, amended. A lookup of a key that the mapping holds leaves the mapping exactly as it
  was; a lookup of a key that it does not hold adds the entry from that key to the empty
  string and changes nothing else. Either way the result of every lookup on the element
  afterwards is what it would have been before.
\<close>

theorem repr_frame:
  "representations (snd (Element_repr key el)) =
     (case representations el key of
        Some v \<Rightarrow> representations el
      | None \<Rightarrow> (representations el)(key \<mapsto> []))
   \<and> fst (Element_repr k (snd (Element_repr key el))) = fst (Element_repr k el)"
  by (simp add: Element_repr_def subscript_def split: option.splits)

subsection \<open>The position tag\<close>

text \<open>
  C9. \<^verbatim>\<open>setPosition(x, y)\<close> has no effect on rendering: for every block, state and
  integers \<open>x\<close> and \<open>y\<close>, \<^verbatim>\<open>render()\<close> after it does exactly what it does before
  (the same output, from the same grid), and \<^verbatim>\<open>getPosition()\<close> afterwards returns the
  pair \<open>(x, y)\<close>.
\<close>

theorem setPosition_frame:
  "render (setPosition x y b) w = render b w
   \<and> getPosition (setPosition x y b) = Some (x, y)
   \<and> grid (setPosition x y b) = grid b"
  by (simp add: render_def setPosition_def getPosition_def)

subsection \<open>The constructor\<close>

declare Block_fill_row.simps [simp del] Block_fill.simps [simp del]

lemma index_to_side_known:
  "reverse_side_map_init \<subseteq>\<^sub>m reverse_side_map w \<Longrightarrow> r \<in> {0, 1, 2} \<Longrightarrow> c \<in> {0, 1, 2} \<Longrightarrow>
   index_to_side r c w = (the (reverse_side_map_init (r, c)), w)"
  using reverse_side_map_init_dom [of r c] index_to_side_intact [of w r c] by auto

text \<open>One run of the inner loop allocates three null containers, for the sides of row \<open>i\<close>.\<close>

lemma Block_fill_row_intact:
  assumes "reverse_side_map_init \<subseteq>\<^sub>m reverse_side_map w" and "i \<in> {0, 1, 2}"
  shows "Block_fill_row i 0 w =
     ([fresh w, fresh w + 1, fresh w + 2],
      w\<lparr>containers := (containers w)
           (fresh w \<mapsto> \<lparr>state = the (reverse_side_map_init (i, 0)), el_proxy = NULL_ELEMENT\<rparr>,
            fresh w + 1 \<mapsto> \<lparr>state = the (reverse_side_map_init (i, 1)), el_proxy = NULL_ELEMENT\<rparr>,
            fresh w + 2 \<mapsto> \<lparr>state = the (reverse_side_map_init (i, 2)), el_proxy = NULL_ELEMENT\<rparr>),
         fresh := fresh w + 3\<rparr>)"
proof -
  have stop: "Block_fill_row i 3 v = ([], v)" for v
    by (subst Block_fill_row.simps) (simp add: BLOCK_SIZE_def)
  have step: "j \<in> {0, 1, 2} \<Longrightarrow> reverse_side_map_init \<subseteq>\<^sub>m reverse_side_map v \<Longrightarrow>
    Block_fill_row i j v =
      (let v' = v\<lparr>containers := (containers v)
                 (fresh v \<mapsto> \<lparr>state = the (reverse_side_map_init (i, j)), el_proxy = NULL_ELEMENT\<rparr>),
                 fresh := Suc (fresh v)\<rparr>
       in (fresh v # fst (Block_fill_row i (j + 1) v'), snd (Block_fill_row i (j + 1) v')))" for j v
    using assms(2)
    by (subst Block_fill_row.simps)
      (auto simp: BLOCK_SIZE_def index_to_side_known new_NullContainer_def
        new_ElementContainer_def Let_def split_def)
  show ?thesis
    using assms(1) by (simp add: step stop Let_def)
qed

lemma Block_ctor_intact:
  assumes "reverse_side_map_init \<subseteq>\<^sub>m reverse_side_map w"
  shows "Block_ctor w =
     (\<lparr>grid = [[fresh w, fresh w + 1, fresh w + 2],
               [fresh w + 3, fresh w + 4, fresh w + 5],
               [fresh w + 6, fresh w + 7, fresh w + 8]],
       pos_x = None, pos_y = None\<rparr>,
      w\<lparr>containers := (containers w)
           (fresh w \<mapsto> \<lparr>state = NORTH_WEST, el_proxy = NULL_ELEMENT\<rparr>,
            fresh w + 1 \<mapsto> \<lparr>state = NORTH, el_proxy = NULL_ELEMENT\<rparr>,
            fresh w + 2 \<mapsto> \<lparr>state = NORTH_EAST, el_proxy = NULL_ELEMENT\<rparr>,
            fresh w + 3 \<mapsto> \<lparr>state = WEST, el_proxy = NULL_ELEMENT\<rparr>,
            fresh w + 4 \<mapsto> \<lparr>state = CENTER, el_proxy = NULL_ELEMENT\<rparr>,
            fresh w + 5 \<mapsto> \<lparr>state = EAST, el_proxy = NULL_ELEMENT\<rparr>,
            fresh w + 6 \<mapsto> \<lparr>state = SOUTH_WEST, el_proxy = NULL_ELEMENT\<rparr>,
            fresh w + 7 \<mapsto> \<lparr>state = SOUTH, el_proxy = NULL_ELEMENT\<rparr>,
            fresh w + 8 \<mapsto> \<lparr>state = SOUTH_EAST, el_proxy = NULL_ELEMENT\<rparr>),
         fresh := fresh w + 9\<rparr>)"
proof -
  have stop: "Block_fill 3 v = ([], v)" for v
    by (subst Block_fill.simps) (simp add: BLOCK_SIZE_def)
  have step: "i \<in> {0, 1, 2} \<Longrightarrow>
    Block_fill i v =
      (fst (Block_fill_row i 0 v) # fst (Block_fill (i + 1) (snd (Block_fill_row i 0 v))),
       snd (Block_fill (i + 1) (snd (Block_fill_row i 0 v))))" for i v
    by (subst Block_fill.simps) (auto simp: BLOCK_SIZE_def Let_def split_def)
  show ?thesis
    using assms
    by (simp add: Block_ctor_def step stop Block_fill_row_intact reverse_side_map_init_def add.commute)
qed


subsection \<open>Installing a container\<close>

lemma getElement_in_range:
  "r \<in> {0, 1, 2} \<Longrightarrow> c \<in> {0, 1, 2} \<Longrightarrow> getElement r c b = Some (grid b ! nat r ! nat c)"
  by (auto simp: getElement_def BLOCK_SIZE_def)

lemma getElement_range:
  "getElement r c b = Some p \<Longrightarrow> r \<in> {0, 1, 2} \<and> c \<in> {0, 1, 2}"
  by (auto simp: getElement_def BLOCK_SIZE_def split: if_splits)

lemma getElement_pos [simp]: "getElement r c (b\<lparr>pos_x := u\<rparr>) = getElement r c b"
  "getElement r c (b\<lparr>pos_y := v\<rparr>) = getElement r c b"
  by (simp_all add: getElement_def)

text \<open>Reading a cell after the assignment \<^verbatim>\<open>grid[x][y] = el\<close>.\<close>

lemma getElement_update:
  assumes "grid_shape b" and "x \<in> {0, 1, 2}" and "y \<in> {0, 1, 2}"
  shows "getElement r c (b\<lparr>grid := (grid b)[nat x := (grid b ! nat x)[nat y := el]]\<rparr>) =
     (if r = x \<and> c = y then Some el else getElement r c b)"
proof (cases "0 \<le> r \<and> r < BLOCK_SIZE \<and> 0 \<le> c \<and> c < BLOCK_SIZE")
  case False
  with assms(2,3) show ?thesis
    by (auto simp: getElement_def BLOCK_SIZE_def)
next
  case True
  from assms have lx: "nat x < length (grid b)" and ly: "nat y < length (grid b ! nat x)"
    by (auto simp: grid_shape_def BLOCK_SIZE_def list_all_length)
  from True assms(2,3) have eq: "nat r = nat x \<longleftrightarrow> r = x" "nat c = nat y \<longleftrightarrow> c = y"
    by auto
  from True lx ly eq show ?thesis
    by (auto simp: getElement_def nth_list_update)
qed

lemma grid_shape_update:
  "grid_shape b \<Longrightarrow> grid_shape (b\<lparr>grid := (grid b)[i := (grid b ! i)[j := el]]\<rparr>)"
proof -
  assume g: "grid_shape b"
  have "length ((grid b)[i := (grid b ! i)[j := el]] ! n) = nat BLOCK_SIZE"
    if "n < length (grid b)" for n
    using g that by (cases "i = n") (simp_all add: grid_shape_def list_all_length)
  with g show ?thesis
    by (simp add: grid_shape_def list_all_length)
qed

text \<open>What \<^verbatim>\<open>setContainer\<close> returns when its argument and the occupant of the target
  cell are live.\<close>

lemma setContainer_result:
  assumes "side_map w = side_map_init" and "containers w el = Some k"
    and "side_map_init (state k) = Some (x, y)"
    and "containers w (grid b ! nat x ! nat y) = Some k'"
  shows "setContainer el b w =
     Some (b\<lparr>grid := (grid b)[nat x := (grid b ! nat x)[nat y := el]]\<rparr>,
           w\<lparr>containers := (containers w)(grid b ! nat x ! nat y := None)\<rparr>)"
proof -
  from assms(3) have "x \<in> {0, 1, 2}" "y \<in> {0, 1, 2}"
    using side_map_init_range by blast+
  then have "getElement x y b = Some (grid b ! nat x ! nat y)"
    by (rule getElement_in_range)
  with assms show ?thesis
    by (simp add: setContainer_def getSide_def side_to_index_intact delete_container_def)
qed


text \<open>The values of the three short runs.\<close>

lemma demo_block_eq:
  "demo_block =
     (\<lparr>grid = [[0, 1, 2], [3, 4, 5], [6, 7, 8]], pos_x = None, pos_y = None\<rparr>,
      initial_world\<lparr>containers :=
          [0 \<mapsto> \<lparr>state = NORTH_WEST, el_proxy = NULL_ELEMENT\<rparr>,
           1 \<mapsto> \<lparr>state = NORTH, el_proxy = NULL_ELEMENT\<rparr>,
           2 \<mapsto> \<lparr>state = NORTH_EAST, el_proxy = NULL_ELEMENT\<rparr>,
           3 \<mapsto> \<lparr>state = WEST, el_proxy = NULL_ELEMENT\<rparr>,
           4 \<mapsto> \<lparr>state = CENTER, el_proxy = NULL_ELEMENT\<rparr>,
           5 \<mapsto> \<lparr>state = EAST, el_proxy = NULL_ELEMENT\<rparr>,
           6 \<mapsto> \<lparr>state = SOUTH_WEST, el_proxy = NULL_ELEMENT\<rparr>,
           7 \<mapsto> \<lparr>state = SOUTH, el_proxy = NULL_ELEMENT\<rparr>,
           8 \<mapsto> \<lparr>state = SOUTH_EAST, el_proxy = NULL_ELEMENT\<rparr>],
        fresh := 9\<rparr>)"
proof -
  have "reverse_side_map_init \<subseteq>\<^sub>m reverse_side_map initial_world"
    by (simp add: initial_world_def)
  moreover have "fresh initial_world = 0" "containers initial_world = Map.empty"
    by (simp_all add: initial_world_def)
  ultimately show ?thesis
    by (simp add: demo_block_def Block_ctor_intact numeral_2_eq_2)
qed

lemma demo_wall_eq:
  "demo_wall =
     (9, (snd demo_block)\<lparr>containers :=
            (containers (snd demo_block))(9 \<mapsto> \<lparr>state = NORTH, el_proxy = WALL_ELEMENT\<rparr>),
          fresh := 10\<rparr>)"
  by (simp add: demo_wall_def new_WallContainer_def new_ElementContainer_def demo_block_eq)


subsection \<open>Rendering null containers\<close>

text \<open>A lookup on an element that holds only empty glyphs is empty and leaves it so.\<close>

lemma repr_null_container:
  assumes "null_element_blank w" and "containers w p = Some k" and "el_proxy k = NULL_ELEMENT"
  shows "\<exists>w'. ElementContainer_repr p w = Some ([], w') \<and> null_element_blank w'
           \<and> containers w' = containers w \<and> cout w' = cout w"
proof -
  from assms(1) obtain e where e: "elements w NULL_ELEMENT = Some e"
    and blank: "\<forall>s. representations e s = None \<or> representations e s = Some []"
    by (auto simp: null_element_blank_def split: option.splits)
  from blank [THEN spec, of "state k"] have v: "fst (Element_repr (state k) e) = []"
    by (auto simp: Element_repr_def subscript_def split: option.splits)
  have "representations (snd (Element_repr (state k) e)) s = None
        \<or> representations (snd (Element_repr (state k) e)) s = Some []" for s
    using blank [THEN spec, of s]
    by (auto simp: Element_repr_def subscript_def split: option.splits)
  with e v assms(2,3) show ?thesis
    by (simp add: ElementContainer_repr_def null_element_blank_def split_def)
qed

lemma render_row_null:
  assumes "null_element_blank w"
    and "\<forall>p\<in>set row. \<exists>k. containers w p = Some k \<and> el_proxy k = NULL_ELEMENT"
  shows "\<exists>w'. render_row row w = Some w' \<and> null_element_blank w'
           \<and> containers w' = containers w
           \<and> cout w' = cout w @ concat (map (\<lambda>p. '' '') row)"
  using assms
proof (induction row arbitrary: w)
  case Nil
  then show ?case by simp
next
  case (Cons p row)
  from Cons.prems obtain k where "containers w p = Some k" "el_proxy k = NULL_ELEMENT"
    by auto
  from repr_null_container [OF Cons.prems(1) this] obtain w1 where
    w1: "ElementContainer_repr p w = Some ([], w1)" "null_element_blank w1"
      "containers w1 = containers w" "cout w1 = cout w"
    by blast
  let ?w2 = "w1\<lparr>cout := cout w1 @ [] @ '' ''\<rparr>"
  have "null_element_blank ?w2"
    using w1(2) by (simp add: null_element_blank_def)
  moreover have "\<forall>q\<in>set row. \<exists>k. containers ?w2 q = Some k \<and> el_proxy k = NULL_ELEMENT"
    using Cons.prems(2) w1(3) by simp
  ultimately obtain w' where "render_row row ?w2 = Some w'" "null_element_blank w'"
    "containers w' = containers ?w2" "cout w' = cout ?w2 @ concat (map (\<lambda>p. '' '') row)"
    using Cons.IH by blast
  with w1 show ?case by simp
qed

lemma render_rows_null:
  assumes "null_element_blank w"
    and "\<forall>row\<in>set rows. \<forall>p\<in>set row. \<exists>k. containers w p = Some k \<and> el_proxy k = NULL_ELEMENT"
  shows "\<exists>w'. render_rows rows w = Some w' \<and> null_element_blank w'
           \<and> containers w' = containers w
           \<and> cout w' =
               cout w @ concat (map (\<lambda>row. concat (map (\<lambda>p. '' '') row) @ [CHR 0x0A]) rows)"
  using assms
proof (induction rows arbitrary: w)
  case Nil
  then show ?case by simp
next
  case (Cons row rows)
  from Cons.prems have
    "\<forall>p\<in>set row. \<exists>k. containers w p = Some k \<and> el_proxy k = NULL_ELEMENT"
    by simp
  from render_row_null [OF Cons.prems(1) this] obtain w1 where
    w1: "render_row row w = Some w1" "null_element_blank w1" "containers w1 = containers w"
      "cout w1 = cout w @ concat (map (\<lambda>p. '' '') row)"
    by blast
  let ?w2 = "w1\<lparr>cout := cout w1 @ [CHR 0x0A]\<rparr>"
  have "null_element_blank ?w2"
    using w1(2) by (simp add: null_element_blank_def)
  moreover have
    "\<forall>row\<in>set rows. \<forall>p\<in>set row. \<exists>k. containers ?w2 p = Some k \<and> el_proxy k = NULL_ELEMENT"
    using Cons.prems(2) w1(3) by simp
  ultimately obtain w' where "render_rows rows ?w2 = Some w'" "null_element_blank w'"
    "containers w' = containers ?w2"
    "cout w' = cout ?w2 @ concat (map (\<lambda>row. concat (map (\<lambda>p. '' '') row) @ [CHR 0x0A]) rows)"
    using Cons.IH by blast
  with w1 show ?case by simp
qed

text \<open>
  C2. A block constructed in a state with intact tables, in which the null element holds
  only empty glyphs, has nine cells. The cell \<open>(r, c)\<close> holds a live container that stores
  the side of \<open>(r, c)\<close> and points to the null element, and its \<^verbatim>\<open>repr()\<close> returns the
  empty string. The cell \<open>(1, 1)\<close> stores \<^verbatim>\<open>CENTER\<close>; when the null element is as
  constructed, that side has no entry in the mapping of the element the cell's container
  points to, and its \<^verbatim>\<open>repr()\<close> is empty all the same. The constructor leaves the
  elements as they are, and \<^verbatim>\<open>render()\<close> of the fresh block returns and writes three
  rows that hold nothing but the separating spaces.
\<close>

theorem fresh_block_blank:
  assumes "tables_intact w0" and "null_element_blank w0" and "Block_ctor w0 = (b, w)"
  shows "(\<forall>r\<in>{0, 1, 2}. \<forall>c\<in>{0, 1, 2}.
            \<exists>p k. getElement r c b = Some p \<and> containers w p = Some k
              \<and> reverse_side_map_init (r, c) = Some (state k) \<and> el_proxy k = NULL_ELEMENT
              \<and> map_option fst (ElementContainer_repr p w) = Some [])
     \<and> (\<exists>p. getElement 1 1 b = Some p \<and> getSide p w = Some CENTER)
     \<and> elements w = elements w0
     \<and> (elements w0 NULL_ELEMENT = Some (Element_ctor NULL_REPRESENTATIONS) \<longrightarrow>
          (\<exists>p k e. getElement 1 1 b = Some p \<and> containers w p = Some k \<and> state k = CENTER
             \<and> elements w (el_proxy k) = Some e \<and> representations e (state k) = None
             \<and> map_option fst (ElementContainer_repr p w) = Some []))
     \<and> map_option cout (render b w) =
         Some (cout w0 @ ''   '' @ [CHR 0x0A] @ ''   '' @ [CHR 0x0A] @ ''   '' @ [CHR 0x0A])"
proof -
  from assms(1) have rm: "reverse_side_map_init \<subseteq>\<^sub>m reverse_side_map w0"
    by (simp add: tables_intact_def)
  note ctor = assms(3) [unfolded Block_ctor_intact [OF rm], simplified]
  from ctor have g: "grid b = [[fresh w0, fresh w0 + 1, fresh w0 + 2],
      [fresh w0 + 3, fresh w0 + 4, fresh w0 + 5], [fresh w0 + 6, fresh w0 + 7, fresh w0 + 8]]"
    by auto
  from ctor have cw: "containers w = (containers w0)
         (fresh w0 \<mapsto> \<lparr>state = NORTH_WEST, el_proxy = NULL_ELEMENT\<rparr>,
          fresh w0 + 1 \<mapsto> \<lparr>state = NORTH, el_proxy = NULL_ELEMENT\<rparr>,
          fresh w0 + 2 \<mapsto> \<lparr>state = NORTH_EAST, el_proxy = NULL_ELEMENT\<rparr>,
          fresh w0 + 3 \<mapsto> \<lparr>state = WEST, el_proxy = NULL_ELEMENT\<rparr>,
          fresh w0 + 4 \<mapsto> \<lparr>state = CENTER, el_proxy = NULL_ELEMENT\<rparr>,
          fresh w0 + 5 \<mapsto> \<lparr>state = EAST, el_proxy = NULL_ELEMENT\<rparr>,
          fresh w0 + 6 \<mapsto> \<lparr>state = SOUTH_WEST, el_proxy = NULL_ELEMENT\<rparr>,
          fresh w0 + 7 \<mapsto> \<lparr>state = SOUTH, el_proxy = NULL_ELEMENT\<rparr>,
          fresh w0 + 8 \<mapsto> \<lparr>state = SOUTH_EAST, el_proxy = NULL_ELEMENT\<rparr>)"
    by auto
  from ctor have el: "elements w = elements w0"
    by auto
  with assms(2) have nb: "null_element_blank w"
    by (simp add: null_element_blank_def)
  have sides: "reverse_side_map_init (0, 0) = Some NORTH_WEST"
    "reverse_side_map_init (0, 1) = Some NORTH" "reverse_side_map_init (0, 2) = Some NORTH_EAST"
    "reverse_side_map_init (1, 0) = Some WEST" "reverse_side_map_init (1, 1) = Some CENTER"
    "reverse_side_map_init (1, 2) = Some EAST" "reverse_side_map_init (2, 0) = Some SOUTH_WEST"
    "reverse_side_map_init (2, 1) = Some SOUTH" "reverse_side_map_init (2, 2) = Some SOUTH_EAST"
    by (simp_all add: reverse_side_map_init_def)
  have cell: "\<exists>k. containers w (grid b ! nat r ! nat c) = Some k
      \<and> reverse_side_map_init (r, c) = Some (state k) \<and> el_proxy k = NULL_ELEMENT"
    if "r \<in> {0, 1, 2}" "c \<in> {0, 1, 2}" for r c
    using that by (auto simp: g cw sides)
  have percell: "\<exists>p k. getElement r c b = Some p \<and> containers w p = Some k
      \<and> reverse_side_map_init (r, c) = Some (state k) \<and> el_proxy k = NULL_ELEMENT
      \<and> map_option fst (ElementContainer_repr p w) = Some []"
    if rc: "r \<in> {0, 1, 2}" "c \<in> {0, 1, 2}" for r c
  proof -
    from rc have ge: "getElement r c b = Some (grid b ! nat r ! nat c)"
      by (rule getElement_in_range)
    from cell [OF rc] obtain k where k: "containers w (grid b ! nat r ! nat c) = Some k"
      "reverse_side_map_init (r, c) = Some (state k)" "el_proxy k = NULL_ELEMENT"
      by blast
    from repr_null_container [OF nb k(1,3)] ge k show ?thesis
      by auto
  qed
  from percell [of 1 1] obtain p k where pk: "getElement 1 1 b = Some p"
    "containers w p = Some k" "reverse_side_map_init (1, 1) = Some (state k)"
    "el_proxy k = NULL_ELEMENT" "map_option fst (ElementContainer_repr p w) = Some []"
    by auto
  from pk(3) have centre: "state k = CENTER"
    by (simp add: sides)
  with pk(1,2) have "\<exists>p. getElement 1 1 b = Some p \<and> getSide p w = Some CENTER"
    by (auto simp: getSide_def)
  moreover have "\<exists>p k e. getElement 1 1 b = Some p \<and> containers w p = Some k \<and> state k = CENTER
      \<and> elements w (el_proxy k) = Some e \<and> representations e (state k) = None
      \<and> map_option fst (ElementContainer_repr p w) = Some []"
    if "elements w0 NULL_ELEMENT = Some (Element_ctor NULL_REPRESENTATIONS)"
  proof -
    have "representations (Element_ctor NULL_REPRESENTATIONS) CENTER = None"
      by (simp add: Element_ctor_def NULL_REPRESENTATIONS_def)
    with that pk centre el show ?thesis
      by auto
  qed
  moreover from ctor have cells:
    "\<forall>row\<in>set (grid b). \<forall>p\<in>set row. \<exists>k. containers w p = Some k \<and> el_proxy k = NULL_ELEMENT"
    unfolding g by auto
  from render_rows_null [OF nb cells] ctor have "map_option cout (render b w) =
      Some (cout w0 @ ''   '' @ [CHR 0x0A] @ ''   '' @ [CHR 0x0A] @ ''   '' @ [CHR 0x0A])"
    by (auto simp: render_def g)
  ultimately show ?thesis
    using percell el by blast
qed

lemma null_element_blank_initial: "null_element_blank initial_world"
proof -
  have "NULL_REPRESENTATIONS s = None \<or> NULL_REPRESENTATIONS s = Some []" for s
    by (cases s) (simp_all add: NULL_REPRESENTATIONS_def)
  then show ?thesis
    by (simp add: null_element_blank_def initial_world_def Element_ctor_def
        NULL_ELEMENT_def WALL_ELEMENT_def FLOOR_ELEMENT_def)
qed

text \<open>
  The fresh block at the entry state: its centre cell stores \<^verbatim>\<open>CENTER\<close>, for which the
  null element has no entry, and renders empty.
\<close>

theorem fresh_block_blank_witness:
  "tables_intact initial_world \<and> null_element_blank initial_world
   \<and> elements initial_world NULL_ELEMENT = Some (Element_ctor NULL_REPRESENTATIONS)
   \<and> getElement 1 1 (fst demo_block) = Some 4
   \<and> getSide 4 (snd demo_block) = Some CENTER
   \<and> (\<exists>k e. containers (snd demo_block) 4 = Some k \<and> state k = CENTER
         \<and> elements (snd demo_block) (el_proxy k) = Some e \<and> representations e (state k) = None)
   \<and> map_option fst (ElementContainer_repr 4 (snd demo_block)) = Some []
   \<and> map_option cout (render (fst demo_block) (snd demo_block)) =
       Some (''   '' @ [CHR 0x0A] @ ''   '' @ [CHR 0x0A] @ ''   '' @ [CHR 0x0A])"
proof -
  have c: "Block_ctor initial_world = (fst demo_block, snd demo_block)"
    by (simp add: demo_block_def)
  have n: "elements initial_world NULL_ELEMENT = Some (Element_ctor NULL_REPRESENTATIONS)"
    by (simp add: initial_world_def NULL_ELEMENT_def WALL_ELEMENT_def FLOOR_ELEMENT_def)
  note th = fresh_block_blank [OF tables_intact_initial null_element_blank_initial c]
  have g: "getElement 1 1 (fst demo_block) = Some 4"
    by (simp add: demo_block_eq getElement_def BLOCK_SIZE_def)
  from th g have s: "getSide 4 (snd demo_block) = Some CENTER"
    by auto
  from th n have "\<exists>p k e. getElement 1 1 (fst demo_block) = Some p
      \<and> containers (snd demo_block) p = Some k \<and> state k = CENTER
      \<and> elements (snd demo_block) (el_proxy k) = Some e \<and> representations e (state k) = None
      \<and> map_option fst (ElementContainer_repr p (snd demo_block)) = Some []"
    by blast
  with g have e: "\<exists>k e. containers (snd demo_block) 4 = Some k \<and> state k = CENTER
      \<and> elements (snd demo_block) (el_proxy k) = Some e \<and> representations e (state k) = None"
    and r: "map_option fst (ElementContainer_repr 4 (snd demo_block)) = Some []"
    by auto
  from th have "map_option cout (render (fst demo_block) (snd demo_block)) =
       Some (''   '' @ [CHR 0x0A] @ ''   '' @ [CHR 0x0A] @ ''   '' @ [CHR 0x0A])"
    by (simp add: initial_world_def)
  with tables_intact_initial null_element_blank_initial n g s e r show ?thesis
    by (intro conjI)
qed

subsection \<open>Placement consistency\<close>

lemma placement_consistent_iff:
  assumes "side_map w = side_map_init"
  shows "placement_consistent b w \<longleftrightarrow>
     (\<forall>r\<in>{0, 1, 2}. \<forall>c\<in>{0, 1, 2}.
        \<exists>k. containers w (grid b ! nat r ! nat c) = Some k \<and> side_map_init (state k) = Some (r, c))"
proof -
  have "(case getElement r c b of
          None \<Rightarrow> False
        | Some p \<Rightarrow>
            (case getSide p w of
               None \<Rightarrow> False
             | Some s \<Rightarrow> fst (side_to_index s w) = (r, c)))
      \<longleftrightarrow> (\<exists>k. containers w (grid b ! nat r ! nat c) = Some k
              \<and> side_map_init (state k) = Some (r, c))"
    if "r \<in> {0, 1, 2}" "c \<in> {0, 1, 2}" for r c
  proof (cases "containers w (grid b ! nat r ! nat c)")
    case None
    then show ?thesis
      by (simp add: getElement_in_range [OF that] getSide_def)
  next
    case (Some k)
    obtain p where "side_map_init (state k) = Some p"
      using side_map_init_total by blast
    with Some show ?thesis
      by (simp add: getElement_in_range [OF that] getSide_def side_to_index_intact [OF assms])
  qed
  then show ?thesis
    unfolding placement_consistent_def by blast
qed

lemma cell_in_grid:
  assumes "grid_shape b" and "r \<in> {0, 1, 2}" and "c \<in> {0, 1, 2}"
  shows "grid b ! nat r ! nat c \<in> set (concat (grid b))"
proof -
  from assms have "nat r < length (grid b)" "nat c < length (grid b ! nat r)"
    by (auto simp: grid_shape_def BLOCK_SIZE_def list_all_length)
  then have "grid b ! nat r \<in> set (grid b)" "grid b ! nat r ! nat c \<in> set (grid b ! nat r)"
    by simp_all
  then show ?thesis by auto
qed

text \<open>The constructor establishes the invariant.\<close>

lemma construct_consistent:
  assumes "world_ok w0" and "Block_ctor w0 = (b, w)"
  shows "world_ok w \<and> grid_shape b \<and> placement_consistent b w"
proof -
  from assms(1) have sm: "side_map w0 = side_map_init"
    and rm: "reverse_side_map_init \<subseteq>\<^sub>m reverse_side_map w0"
    and al: "\<forall>p\<in>dom (containers w0). p < fresh w0"
    by (simp_all add: world_ok_def tables_intact_def)
  note ctor = assms(2) [unfolded Block_ctor_intact [OF rm], simplified]
  from ctor sm rm have t: "tables_intact w"
    by (auto simp: tables_intact_def)
  from ctor have fw: "fresh w = fresh w0 + 9"
    and sub: "dom (containers w) \<subseteq> dom (containers w0) \<union> {fresh w0 ..< fresh w0 + 9}"
    by (auto split: if_splits)
  have "p < fresh w" if "p \<in> dom (containers w)" for p
  proof (cases "p \<in> dom (containers w0)")
    case True
    with al have "p < fresh w0" by blast
    with fw show ?thesis by simp
  next
    case False
    with that sub have "p \<in> {fresh w0 ..< fresh w0 + 9}" by blast
    with fw show ?thesis by simp
  qed
  then have "\<forall>p\<in>dom (containers w). p < fresh w"
    by blast
  with t have "world_ok w"
    by (simp add: world_ok_def)
  moreover from ctor have "grid_shape b"
    by (auto simp: grid_shape_def BLOCK_SIZE_def)
  moreover have "placement_consistent b w"
  proof -
    have sides: "side_map_init NORTH_WEST = Some (0, 0)" "side_map_init NORTH = Some (0, 1)"
      "side_map_init NORTH_EAST = Some (0, 2)" "side_map_init WEST = Some (1, 0)"
      "side_map_init CENTER = Some (1, 1)" "side_map_init EAST = Some (1, 2)"
      "side_map_init SOUTH_WEST = Some (2, 0)" "side_map_init SOUTH = Some (2, 1)"
      "side_map_init SOUTH_EAST = Some (2, 2)"
      by (simp_all add: side_map_init_def)
    from ctor have gb: "grid b = [[fresh w0, fresh w0 + 1, fresh w0 + 2],
        [fresh w0 + 3, fresh w0 + 4, fresh w0 + 5], [fresh w0 + 6, fresh w0 + 7, fresh w0 + 8]]"
      by auto
    from ctor have cw: "containers w = (containers w0)
           (fresh w0 \<mapsto> \<lparr>state = NORTH_WEST, el_proxy = NULL_ELEMENT\<rparr>,
            fresh w0 + 1 \<mapsto> \<lparr>state = NORTH, el_proxy = NULL_ELEMENT\<rparr>,
            fresh w0 + 2 \<mapsto> \<lparr>state = NORTH_EAST, el_proxy = NULL_ELEMENT\<rparr>,
            fresh w0 + 3 \<mapsto> \<lparr>state = WEST, el_proxy = NULL_ELEMENT\<rparr>,
            fresh w0 + 4 \<mapsto> \<lparr>state = CENTER, el_proxy = NULL_ELEMENT\<rparr>,
            fresh w0 + 5 \<mapsto> \<lparr>state = EAST, el_proxy = NULL_ELEMENT\<rparr>,
            fresh w0 + 6 \<mapsto> \<lparr>state = SOUTH_WEST, el_proxy = NULL_ELEMENT\<rparr>,
            fresh w0 + 7 \<mapsto> \<lparr>state = SOUTH, el_proxy = NULL_ELEMENT\<rparr>,
            fresh w0 + 8 \<mapsto> \<lparr>state = SOUTH_EAST, el_proxy = NULL_ELEMENT\<rparr>)"
      by auto
    show ?thesis
      unfolding placement_consistent_iff [OF t [unfolded tables_intact_def, THEN conjunct1]]
      by (simp add: gb cw sides)
  qed
  ultimately show ?thesis by blast
qed

text \<open>An allocation does not touch a container that the block holds.\<close>

lemma allocate_consistent:
  assumes "world_ok w \<and> grid_shape b \<and> placement_consistent b w"
    and "new_ElementContainer side el w = (p, w')"
  shows "world_ok w' \<and> grid_shape b \<and> placement_consistent b w'"
proof -
  from assms(1) have sm: "side_map w = side_map_init"
    and t: "tables_intact w" and al: "\<forall>p\<in>dom (containers w). p < fresh w"
    and g: "grid_shape b" and pc: "placement_consistent b w"
    by (simp_all add: world_ok_def tables_intact_def)
  from assms(2) have w': "w' = w\<lparr>containers := (containers w)(fresh w \<mapsto> \<lparr>state = side, el_proxy = el\<rparr>),
      fresh := Suc (fresh w)\<rparr>"
    by (auto simp: new_ElementContainer_def)
  have sm': "side_map w' = side_map_init"
    unfolding w' using sm by simp
  from t al have "world_ok w'"
    unfolding w' by (auto simp: world_ok_def tables_intact_def less_Suc_eq)
  moreover have "placement_consistent b w'"
    unfolding placement_consistent_iff [OF sm']
  proof (intro ballI)
    fix r c :: int
    assume rc: "r \<in> {0, 1, 2}" "c \<in> {0, 1, 2}"
    with pc [unfolded placement_consistent_iff [OF sm]] obtain k where
      k: "containers w (grid b ! nat r ! nat c) = Some k" "side_map_init (state k) = Some (r, c)"
      by blast
    with al have "grid b ! nat r ! nat c \<noteq> fresh w"
      by (auto simp: dom_def)
    with k show "\<exists>k. containers w' (grid b ! nat r ! nat c) = Some k
                  \<and> side_map_init (state k) = Some (r, c)"
      unfolding w' by simp
  qed
  ultimately show ?thesis using g by blast
qed

text \<open>Installing a live container that the block does not hold yet keeps the invariant.\<close>

lemma install_consistent:
  assumes "world_ok w \<and> grid_shape b \<and> placement_consistent b w"
    and "el \<notin> set (concat (grid b))"
    and "setContainer el b w = Some (b', w')"
  shows "world_ok w' \<and> grid_shape b' \<and> placement_consistent b' w'"
proof -
  from assms(1) have sm: "side_map w = side_map_init"
    and t: "tables_intact w" and al: "\<forall>p\<in>dom (containers w). p < fresh w"
    and g: "grid_shape b" and pc: "placement_consistent b w"
    by (simp_all add: world_ok_def tables_intact_def)
  note cells = pc [unfolded placement_consistent_iff [OF sm]]
  from assms(3) obtain k where k: "containers w el = Some k"
    by (auto simp: setContainer_def getSide_def split: option.splits Option.bind_splits)
  obtain x y where xy: "side_map_init (state k) = Some (x, y)"
    using side_map_init_total [of "state k"] by auto
  then have rng: "x \<in> {0, 1, 2}" "y \<in> {0, 1, 2}"
    using side_map_init_range by blast+
  let ?q = "grid b ! nat x ! nat y"
  from cells rng obtain kq where kq: "containers w ?q = Some kq"
    "side_map_init (state kq) = Some (x, y)"
    by blast
  from setContainer_result [OF sm k xy kq(1)] assms(3)
  have b': "b' = b\<lparr>grid := (grid b)[nat x := (grid b ! nat x)[nat y := el]]\<rparr>"
    and w': "w' = w\<lparr>containers := (containers w)(?q := None)\<rparr>"
    by simp_all
  from cell_in_grid [OF g rng] assms(2) have neq: "el \<noteq> ?q"
    by auto
  have sm': "side_map w' = side_map_init"
    unfolding w' using sm by simp
  from t al have "world_ok w'"
    unfolding w' by (auto simp: world_ok_def tables_intact_def)
  moreover from g have "grid_shape b'"
    unfolding b' by (rule grid_shape_update)
  moreover have "placement_consistent b' w'"
    unfolding placement_consistent_iff [OF sm']
  proof (intro ballI)
    fix r c :: int
    assume rc: "r \<in> {0, 1, 2}" "c \<in> {0, 1, 2}"
    have "getElement r c b' = (if r = x \<and> c = y then Some el else getElement r c b)"
      unfolding b' by (rule getElement_update [OF g rng])
    then have cell:
      "grid b' ! nat r ! nat c = (if r = x \<and> c = y then el else grid b ! nat r ! nat c)"
      by (auto simp: getElement_in_range [OF rc] split: if_splits)
    show "\<exists>k. containers w' (grid b' ! nat r ! nat c) = Some k
            \<and> side_map_init (state k) = Some (r, c)"
    proof (cases "r = x \<and> c = y")
      case True
      with cell neq k xy show ?thesis unfolding w' by simp
    next
      case False
      from cells rc obtain k' where k': "containers w (grid b ! nat r ! nat c) = Some k'"
        "side_map_init (state k') = Some (r, c)"
        by blast
      with kq False have "grid b ! nat r ! nat c \<noteq> ?q"
        by auto
      with cell False k' show ?thesis unfolding w' by simp
    qed
  qed
  ultimately show ?thesis by blast
qed


lemma world_ok_initial: "world_ok initial_world"
  using tables_intact_initial by (simp add: world_ok_def initial_world_def)

lemma demo_block_reachable: "reachable allowed (fst demo_block) (snd demo_block)"
  by (rule reachable.construct [OF world_ok_initial]) (simp add: demo_block_def)

lemma install_wall_demo_eq:
  "install_wall_demo =
     Some ((fst demo_block)\<lparr>grid := [[0, 9, 2], [3, 4, 5], [6, 7, 8]]\<rparr>,
           (snd demo_wall)\<lparr>containers := (containers (snd demo_wall))(1 := None)\<rparr>)"
proof -
  have "side_map (snd demo_wall) = side_map_init"
    by (simp add: demo_wall_eq demo_block_eq initial_world_def)
  moreover have "containers (snd demo_wall) (fst demo_wall) =
      Some \<lparr>state = NORTH, el_proxy = WALL_ELEMENT\<rparr>"
    by (simp add: demo_wall_eq)
  moreover have "side_map_init (state \<lparr>state = NORTH, el_proxy = WALL_ELEMENT\<rparr>) = Some (0, 1)"
    by (simp add: side_map_init_def)
  moreover have "containers (snd demo_wall) (grid (fst demo_block) ! nat 0 ! nat 1) =
      Some \<lparr>state = NORTH, el_proxy = NULL_ELEMENT\<rparr>"
    by (simp add: demo_wall_eq demo_block_eq)
  ultimately have "setContainer (fst demo_wall) (fst demo_block) (snd demo_wall) =
     Some ((fst demo_block)\<lparr>grid := (grid (fst demo_block))
              [nat 0 := (grid (fst demo_block) ! nat 0)[nat 1 := fst demo_wall]]\<rparr>,
           (snd demo_wall)\<lparr>containers :=
              (containers (snd demo_wall))(grid (fst demo_block) ! nat 0 ! nat 1 := None)\<rparr>)"
    by (rule setContainer_result)
  then show ?thesis
    by (simp add: install_wall_demo_def demo_block_eq) (simp add: demo_wall_eq)
qed

lemma reinstall_demo_eq:
  "reinstall_demo =
     Some (fst demo_block,
           (snd demo_block)\<lparr>containers := (containers (snd demo_block))(0 := None)\<rparr>)"
proof -
  have "side_map (snd demo_block) = side_map_init"
    by (simp add: demo_block_eq initial_world_def)
  moreover have "containers (snd demo_block) 0 = Some \<lparr>state = NORTH_WEST, el_proxy = NULL_ELEMENT\<rparr>"
    by (simp add: demo_block_eq)
  moreover have "side_map_init (state \<lparr>state = NORTH_WEST, el_proxy = NULL_ELEMENT\<rparr>) = Some (0, 0)"
    by (simp add: side_map_init_def)
  moreover have "containers (snd demo_block) (grid (fst demo_block) ! nat 0 ! nat 0) =
      Some \<lparr>state = NORTH_WEST, el_proxy = NULL_ELEMENT\<rparr>"
    by (simp add: demo_block_eq)
  ultimately have "setContainer 0 (fst demo_block) (snd demo_block) =
     Some ((fst demo_block)\<lparr>grid := (grid (fst demo_block))
              [nat 0 := (grid (fst demo_block) ! nat 0)[nat 0 := 0]]\<rparr>,
           (snd demo_block)\<lparr>containers :=
              (containers (snd demo_block))(grid (fst demo_block) ! nat 0 ! nat 0 := None)\<rparr>)"
    by (rule setContainer_result)
  moreover have "getElement 0 0 (fst demo_block) = Some 0"
    by (simp add: demo_block_eq getElement_def BLOCK_SIZE_def)
  ultimately show ?thesis
    by (simp add: reinstall_demo_def) (simp add: demo_block_eq)
qed


text \<open>
  C10, as stated, fails. A caller may pass a cell's own occupant: after the constructor,
  \<^verbatim>\<open>setContainer(getElement(0, 0))\<close> returns, having deleted the container that it
  then stores again, so the block it reaches holds at \<open>(0, 0)\<close> the address of a
  container that is no longer live, with no stored side to read.
\<close>

theorem reinstall_breaks_consistency:
  "(case reinstall_demo of
      None \<Rightarrow> False
    | Some (b, w) \<Rightarrow>
        reachable any_container b w \<and> \<not> placement_consistent b w
        \<and> getElement 0 0 b = Some 0 \<and> getSide 0 w = None)"
proof -
  let ?b = "fst demo_block"
  let ?w = "(snd demo_block)\<lparr>containers := (containers (snd demo_block))(0 := None)\<rparr>"
  have run: "setContainer 0 (fst demo_block) (snd demo_block) = Some (?b, ?w)"
    using reinstall_demo_eq
    by (simp add: reinstall_demo_def demo_block_eq getElement_def BLOCK_SIZE_def)
  have "any_container 0 (fst demo_block) (snd demo_block)"
    by (simp add: any_container_def)
  with demo_block_reachable have "reachable any_container ?b ?w"
    using run by (rule reachable.install)
  moreover have cell: "getElement 0 0 ?b = Some 0"
    by (simp add: demo_block_eq getElement_def BLOCK_SIZE_def)
  moreover have gone: "getSide 0 ?w = None"
    by (simp add: getSide_def)
  moreover from cell gone have "\<not> placement_consistent ?b ?w"
    by (simp add: placement_consistent_def)
  ultimately show ?thesis
    by (simp add: reinstall_demo_eq)
qed

text \<open>
  C10, amended. For every block reachable from the constructor (called in a well-formed
  state) by any sequence of \<^verbatim>\<open>setContainer\<close> calls that each pass a live container
  which the block does not hold yet, each cell is placement-consistent: for every
  \<open>(r, c)\<close> the cell holds a live container whose stored side \<open>s\<close> has
  \<^verbatim>\<open>side_to_index(s) == (r, c)\<close>. The grid keeps its shape and the state stays
  well-formed. The constructor establishes this and such a call preserves it.
\<close>

theorem reachable_placement_consistent:
  assumes "reachable not_held b w"
  shows "placement_consistent b w \<and> grid_shape b \<and> world_ok w"
proof -
  from assms have "world_ok w \<and> grid_shape b \<and> placement_consistent b w"
  proof (induction rule: reachable.induct)
    case (construct w0 b w)
    then show ?case by (rule construct_consistent)
  next
    case (allocate b w side el p w')
    from allocate.IH allocate.hyps(2) show ?case by (rule allocate_consistent)
  next
    case (install b w el b' w')
    from install.hyps(2) have "el \<notin> set (concat (grid b))"
      by (simp add: not_held_def)
    with install.IH show ?case
      using install.hyps(3) by (rule install_consistent)
  qed
  then show ?thesis by blast
qed

text \<open>The block of the first short run: a fresh block with a new wall installed at \<^verbatim>\<open>NORTH\<close>.\<close>

theorem reachable_placement_consistent_witness:
  "(case install_wall_demo of
      None \<Rightarrow> False
    | Some (b, w) \<Rightarrow>
        reachable not_held b w \<and> placement_consistent b w
        \<and> getElement 0 1 b = Some 9 \<and> getSide 9 w = Some NORTH)"
proof -
  let ?b = "(fst demo_block)\<lparr>grid := [[0, 9, 2], [3, 4, 5], [6, 7, 8]]\<rparr>"
  let ?w = "(snd demo_wall)\<lparr>containers := (containers (snd demo_wall))(1 := None)\<rparr>"
  have "new_ElementContainer NORTH WALL_ELEMENT (snd demo_block) = (fst demo_wall, snd demo_wall)"
    by (simp add: demo_wall_def new_WallContainer_def)
  with demo_block_reachable have "reachable not_held (fst demo_block) (snd demo_wall)"
    by (rule reachable.allocate)
  moreover have "not_held (fst demo_wall) (fst demo_block) (snd demo_wall)"
    by (simp add: not_held_def demo_wall_eq demo_block_eq)
  moreover have "setContainer (fst demo_wall) (fst demo_block) (snd demo_wall) = Some (?b, ?w)"
    using install_wall_demo_eq by (simp add: install_wall_demo_def)
  ultimately have r: "reachable not_held ?b ?w"
    by (rule reachable.install)
  from reachable_placement_consistent [OF r] have "placement_consistent ?b ?w"
    by simp
  moreover have "getElement 0 1 ?b = Some 9"
    by (simp add: getElement_def BLOCK_SIZE_def)
  moreover have "getSide 9 ?w = Some NORTH"
    by (simp add: getSide_def demo_wall_eq)
  ultimately show ?thesis
    using r by (simp add: install_wall_demo_eq)
qed

subsection \<open>The demo\<close>

lemma demo_cells_iff:
  "demo_cells S b w \<longleftrightarrow>
     (\<forall>r\<in>{0, 1, 2}. \<forall>c\<in>{0, 1, 2}.
        \<exists>k. containers w (grid b ! nat r ! nat c) = Some k
          \<and> side_map_init (state k) = Some (r, c)
          \<and> (state k \<in> S \<longrightarrow> el_proxy k = demo_element (state k)))"
proof -
  have "(case getElement r c b of
          None \<Rightarrow> False
        | Some p \<Rightarrow>
            (case containers w p of
               None \<Rightarrow> False
             | Some k \<Rightarrow>
                 side_map_init (state k) = Some (r, c)
                 \<and> (state k \<in> S \<longrightarrow> el_proxy k = demo_element (state k))))
      \<longleftrightarrow> (\<exists>k. containers w (grid b ! nat r ! nat c) = Some k
              \<and> side_map_init (state k) = Some (r, c)
              \<and> (state k \<in> S \<longrightarrow> el_proxy k = demo_element (state k)))"
    if "r \<in> {0, 1, 2}" "c \<in> {0, 1, 2}" for r c
    by (cases "containers w (grid b ! nat r ! nat c)")
      (simp_all add: getElement_in_range [OF that])
  then show ?thesis
    unfolding demo_cells_def by blast
qed

lemma fresh_block_demo_cells:
  assumes "side_map w = side_map_init" and "placement_consistent b w"
  shows "demo_cells {} b w"
  using assms(2) unfolding placement_consistent_iff [OF assms(1)] demo_cells_iff by simp

text \<open>One statement of the demo returns, and the cell of its side then holds the
  container of the demo's choice.\<close>

lemma demo_install_step:
  assumes "world_ok w" and "grid_shape b" and "demo_cells S b w"
  shows "\<exists>b' w'. demo_install s (b, w) = Some (b', w') \<and> world_ok w' \<and> grid_shape b'
           \<and> demo_cells (insert s S) b' w' \<and> elements w' = elements w \<and> cout w' = cout w"
proof -
  from assms(1) have sm: "side_map w = side_map_init"
    and t: "tables_intact w" and al: "\<forall>p\<in>dom (containers w). p < fresh w"
    by (simp_all add: world_ok_def tables_intact_def)
  note cells = assms(3) [unfolded demo_cells_iff]
  obtain x y where xy: "side_map_init s = Some (x, y)"
    using side_map_init_total [of s] by auto
  then have rng: "x \<in> {0, 1, 2}" "y \<in> {0, 1, 2}"
    using side_map_init_range by blast+
  let ?k = "\<lparr>state = s, el_proxy = demo_element s\<rparr>"
  let ?w1 = "w\<lparr>containers := (containers w)(fresh w \<mapsto> ?k), fresh := Suc (fresh w)\<rparr>"
  let ?q = "grid b ! nat x ! nat y"
  let ?b' = "b\<lparr>grid := (grid b)[nat x := (grid b ! nat x)[nat y := fresh w]]\<rparr>"
  let ?w' = "?w1\<lparr>containers := (containers ?w1)(?q := None)\<rparr>"
  from cells rng obtain kq where kq: "containers w ?q = Some kq"
    by blast
  with al have qf: "?q \<noteq> fresh w"
    by (auto simp: dom_def)
  have "setContainer (fresh w) b ?w1 =
      Some (b\<lparr>grid := (grid b)[nat x := (grid b ! nat x)[nat y := fresh w]]\<rparr>,
            ?w1\<lparr>containers := (containers ?w1)(?q := None)\<rparr>)"
  proof (rule setContainer_result)
    show "side_map ?w1 = side_map_init" using sm by simp
    show "containers ?w1 (fresh w) = Some ?k" by simp
    show "side_map_init (state ?k) = Some (x, y)" using xy by simp
    show "containers ?w1 ?q = Some kq" using kq qf by simp
  qed
  then have run: "demo_install s (b, w) = Some (?b', ?w')"
    by (cases "s = CENTER")
      (simp_all add: demo_install_def install_new_def new_WallContainer_def
        new_FloorContainer_def new_ElementContainer_def demo_element_def)
  from t al have "world_ok ?w'"
    by (auto simp: world_ok_def tables_intact_def less_Suc_eq split: if_splits)
  moreover from assms(2) have "grid_shape ?b'"
    by (rule grid_shape_update)
  moreover have "demo_cells (insert s S) ?b' ?w'"
    unfolding demo_cells_iff
  proof (intro ballI)
    fix r c :: int
    assume rc: "r \<in> {0, 1, 2}" "c \<in> {0, 1, 2}"
    have "getElement r c ?b' = (if r = x \<and> c = y then Some (fresh w) else getElement r c b)"
      by (rule getElement_update [OF assms(2) rng])
    then have cell:
      "grid ?b' ! nat r ! nat c = (if r = x \<and> c = y then fresh w else grid b ! nat r ! nat c)"
      by (auto simp: getElement_in_range [OF rc] split: if_splits)
    show "\<exists>k. containers ?w' (grid ?b' ! nat r ! nat c) = Some k
             \<and> side_map_init (state k) = Some (r, c)
             \<and> (state k \<in> insert s S \<longrightarrow> el_proxy k = demo_element (state k))"
    proof (cases "r = x \<and> c = y")
      case True
      with cell qf xy show ?thesis by simp
    next
      case False
      from cells rc obtain k' where k': "containers w (grid b ! nat r ! nat c) = Some k'"
        "side_map_init (state k') = Some (r, c)"
        "state k' \<in> S \<longrightarrow> el_proxy k' = demo_element (state k')"
        by blast
      from k'(1) al have "grid b ! nat r ! nat c \<noteq> fresh w"
        by (auto simp: dom_def)
      moreover from cells rng kq obtain "side_map_init (state kq) = Some (x, y)"
        by fastforce
      with k' kq False have "grid b ! nat r ! nat c \<noteq> ?q"
        by auto
      moreover from k'(2) xy False have "state k' \<noteq> s"
        by auto
      ultimately show ?thesis
        using cell False k' by simp
    qed
  qed
  ultimately show ?thesis
    using run by simp
qed

lemma demo_installs_run:
  assumes "world_ok w" and "grid_shape b" and "demo_cells S b w"
  shows "\<exists>b' w'. demo_installs sides (b, w) = Some (b', w') \<and> world_ok w' \<and> grid_shape b'
           \<and> demo_cells (S \<union> set sides) b' w' \<and> elements w' = elements w \<and> cout w' = cout w"
  using assms
proof (induction sides arbitrary: b w S)
  case Nil
  then show ?case by simp
next
  case (Cons s sides)
  from demo_install_step [OF Cons.prems, of s] obtain b1 w1 where
    1: "demo_install s (b, w) = Some (b1, w1)" "world_ok w1" "grid_shape b1"
      "demo_cells (insert s S) b1 w1" "elements w1 = elements w" "cout w1 = cout w"
    by blast
  from Cons.IH [OF 1(2,3,4)] obtain b' w' where
    "demo_installs sides (b1, w1) = Some (b', w')" "world_ok w'" "grid_shape b'"
      "demo_cells (insert s S \<union> set sides) b' w'" "elements w' = elements w1" "cout w' = cout w1"
    by blast
  with 1 show ?case by simp
qed

text \<open>A lookup through a container of the demo's choice: the glyph, and no change.\<close>

lemma repr_demo_container:
  assumes "containers w p = Some k" and "el_proxy k = demo_element (state k)"
    and "demo_elements w"
  shows "ElementContainer_repr p w = Some (if state k = CENTER then blank else filled, w)"
proof (cases "state k = CENTER")
  case True
  with assms have "elements w (el_proxy k) = Some (Element_ctor FLOOR_REPRESENTATIONS)"
    by (simp add: demo_elements_def demo_element_def)
  moreover have "Element_repr CENTER (Element_ctor FLOOR_REPRESENTATIONS) =
      (blank, Element_ctor FLOOR_REPRESENTATIONS)"
    by (simp add: Element_repr_def subscript_def Element_ctor_def FLOOR_REPRESENTATIONS_def)
  ultimately show ?thesis
    using assms(1) True by (simp add: ElementContainer_repr_def fun_upd_idem)
next
  case False
  with assms have "elements w (el_proxy k) = Some (Element_ctor WALL_REPRESENTATIONS)"
    by (simp add: demo_elements_def demo_element_def)
  moreover from False have "Element_repr (state k) (Element_ctor WALL_REPRESENTATIONS) =
      (filled, Element_ctor WALL_REPRESENTATIONS)"
    by (cases "state k")
      (simp_all add: Element_repr_def subscript_def Element_ctor_def WALL_REPRESENTATIONS_def)
  ultimately show ?thesis
    using assms(1) False by (simp add: ElementContainer_repr_def fun_upd_idem)
qed

lemma grid_rows:
  assumes "grid_shape b"
  shows "grid b = [[grid b ! 0 ! 0, grid b ! 0 ! 1, grid b ! 0 ! 2],
                   [grid b ! 1 ! 0, grid b ! 1 ! 1, grid b ! 1 ! 2],
                   [grid b ! 2 ! 0, grid b ! 2 ! 1, grid b ! 2 ! 2]]"
proof -
  have three: "xs = [xs ! 0, xs ! 1, xs ! 2]" if "length xs = 3" for xs :: "'a list"
    using that
    by (auto simp: list_eq_iff_nth_eq nth_Cons' less_Suc_eq numeral_3_eq_3 numeral_2_eq_2)
  from assms have "length (grid b) = 3" "length (grid b ! 0) = 3" "length (grid b ! 1) = 3"
    "length (grid b ! 2) = 3"
    by (simp_all add: grid_shape_def BLOCK_SIZE_def list_all_length)
  then show ?thesis
    using three [of "grid b"] three [of "grid b ! 0"] three [of "grid b ! 1"]
      three [of "grid b ! 2"] by simp
qed

text \<open>Rendering a block all of whose cells hold the containers of the demo's choice.\<close>

lemma render_demo_cells:
  assumes "grid_shape b" and "demo_cells UNIV b w" and "demo_elements w"
  shows "render b w =
     Some (w\<lparr>cout := cout w
         @ filled @ blank @ filled @ blank @ filled @ blank @ [CHR 0x0A]
         @ filled @ blank @ blank @ blank @ filled @ blank @ [CHR 0x0A]
         @ filled @ blank @ filled @ blank @ filled @ blank @ [CHR 0x0A]\<rparr>)"
proof -
  have R: "ElementContainer_repr (grid b ! nat r ! nat c) (w\<lparr>cout := t\<rparr>) =
      Some (if r = 1 \<and> c = 1 then blank else filled, w\<lparr>cout := t\<rparr>)"
    if rc: "r \<in> {0, 1, 2}" "c \<in> {0, 1, 2}" for r c t
  proof -
    from assms(2) [unfolded demo_cells_iff] rc obtain k where
      k: "containers w (grid b ! nat r ! nat c) = Some k" "side_map_init (state k) = Some (r, c)"
        "el_proxy k = demo_element (state k)"
      by auto
    from k(2) have "state k = CENTER \<longleftrightarrow> r = 1 \<and> c = 1"
      by (cases "state k") (simp_all add: side_map_init_def)
    moreover from assms(3) have "demo_elements (w\<lparr>cout := t\<rparr>)"
      by (simp add: demo_elements_def)
    moreover from k(1) have "containers (w\<lparr>cout := t\<rparr>) (grid b ! nat r ! nat c) = Some k"
      by simp
    ultimately show ?thesis
      using repr_demo_container [OF _ k(3)] by simp
  qed
  note cellwise = R [of 0 0, simplified] R [of 0 1, simplified] R [of 0 2, simplified]
    R [of 1 0, simplified] R [of 1 1, simplified] R [of 1 2, simplified]
    R [of 2 0, simplified] R [of 2 1, simplified] R [of 2 2, simplified]
  have rr: "render_rows [[grid b ! 0 ! 0, grid b ! 0 ! 1, grid b ! 0 ! 2],
                   [grid b ! 1 ! 0, grid b ! 1 ! 1, grid b ! 1 ! 2],
                   [grid b ! 2 ! 0, grid b ! 2 ! 1, grid b ! 2 ! 2]] w =
     Some (w\<lparr>cout := cout w
         @ filled @ blank @ filled @ blank @ filled @ blank @ [CHR 0x0A]
         @ filled @ blank @ blank @ blank @ filled @ blank @ [CHR 0x0A]
         @ filled @ blank @ filled @ blank @ filled @ blank @ [CHR 0x0A]\<rparr>)"
    by (simp add: cellwise R [of 0 0 "cout w", simplified])
  show ?thesis
    unfolding render_def by (subst grid_rows [OF assms(1)]) (rule rr)
qed


lemma UNIV_Side:
  "UNIV = {NORTH_WEST, NORTH, NORTH_EAST, WEST, CENTER, EAST, SOUTH_WEST, SOUTH, SOUTH_EAST}"
proof -
  have "s \<in> {NORTH_WEST, NORTH, NORTH_EAST, WEST, CENTER, EAST, SOUTH_WEST, SOUTH, SOUTH_EAST}"
    for s
    by (cases s) simp_all
  then show ?thesis by blast
qed

lemma demo_elements_initial: "demo_elements initial_world"
  by (simp add: demo_elements_def initial_world_def NULL_ELEMENT_def WALL_ELEMENT_def
      FLOOR_ELEMENT_def)

text \<open>\<^verbatim>\<open>main\<close> is the constructor, the nine statements in its order, and \<^verbatim>\<open>render\<close>.\<close>

lemma main_as_installs:
  "main w0 = do {
     (b, w) \<leftarrow> demo_installs
       [NORTH_WEST, NORTH, NORTH_EAST, WEST, CENTER, EAST, SOUTH_WEST, SOUTH, SOUTH_EAST]
       (Block_ctor w0);
     render b w
   }"
  by (simp add: main_def demo_install_def install_new_def Let_def split_def)

text \<open>What \<^verbatim>\<open>main\<close> has written to \<^verbatim>\<open>std::cout\<close> when it returns.\<close>

lemma main_cout:
  "map_option cout (main initial_world) =
     Some (filled @ blank @ filled @ blank @ filled @ blank @ [CHR 0x0A]
         @ filled @ blank @ blank @ blank @ filled @ blank @ [CHR 0x0A]
         @ filled @ blank @ filled @ blank @ filled @ blank @ [CHR 0x0A])"
proof -
  have ctor: "Block_ctor initial_world = demo_block"
    by (simp add: demo_block_def)
  show ?thesis
    unfolding main_def ctor demo_block_eq
    by (simp add: initial_world_def new_WallContainer_def new_FloorContainer_def
        new_ElementContainer_def setContainer_def getSide_def side_to_index_def subscript_def
        side_map_init_def getElement_def BLOCK_SIZE_def delete_container_def render_def
        ElementContainer_repr_def Element_repr_def Element_ctor_def
        NULL_ELEMENT_def WALL_ELEMENT_def FLOOR_ELEMENT_def
        WALL_REPRESENTATIONS_def FLOOR_REPRESENTATIONS_def)
qed

text \<open>
  C1, as stated, fails. With \<open>\<box>\<close> for the filled glyph: what the demo writes is not
  the three rows \<open>"\<box> \<box> \<box>"\<close>, \<open>"\<box>   \<box>"\<close>, \<open>"\<box> \<box> \<box>"\<close>, one per line,
  and those are not the lines of what it writes, because \<^verbatim>\<open>render\<close> writes a space
  after each cell, the last cell of a row included.
\<close>

theorem main_rows_not_as_claimed:
  "map_option cout (main initial_world) \<noteq>
     Some (concat (map (\<lambda>row. row @ [CHR 0x0A])
       [filled @ blank @ filled @ blank @ filled,
        filled @ blank @ blank @ blank @ filled,
        filled @ blank @ filled @ blank @ filled]))
   \<and> map_option (\<lambda>w. output_lines (cout w)) (main initial_world) \<noteq>
     Some [filled @ blank @ filled @ blank @ filled,
           filled @ blank @ blank @ blank @ filled,
           filled @ blank @ filled @ blank @ filled]"
proof -
  from main_cout obtain w where w: "main initial_world = Some w"
    "cout w = filled @ blank @ filled @ blank @ filled @ blank @ [CHR 0x0A]
         @ filled @ blank @ blank @ blank @ filled @ blank @ [CHR 0x0A]
         @ filled @ blank @ filled @ blank @ filled @ blank @ [CHR 0x0A]"
    by auto
  then show ?thesis by simp
qed

text \<open>
  C1, amended. Take a block constructed with \<^verbatim>\<open>Block()\<close> in a well-formed state whose
  wall and floor elements are as constructed, and install new wall containers on the
  eight perimeter sides and a new floor container at \<^verbatim>\<open>CENTER\<close>, in any order (a side
  may even be installed again). Every installation returns, and \<^verbatim>\<open>render()\<close> then
  returns and writes exactly three rows, one per line, in which each cell's glyph is
  followed by a single space: \<open>"\<box> \<box> \<box> "\<close>, \<open>"\<box>   \<box> "\<close> (the blank glyph
  at the centre) and \<open>"\<box> \<box> \<box> "\<close>. These rows are the lines of that text.
\<close>

theorem demo_render_rows:
  assumes "world_ok w0" and "demo_elements w0" and "Block_ctor w0 = (b0, w1)"
    and "set sides = UNIV"
  shows "(\<exists>b w w'. demo_installs sides (b0, w1) = Some (b, w) \<and> render b w = Some w'
            \<and> cout w' = cout w0 @ concat (map (\<lambda>row. row @ [CHR 0x0A])
                 [filled @ blank @ filled @ blank @ filled @ blank,
                  filled @ blank @ blank @ blank @ filled @ blank,
                  filled @ blank @ filled @ blank @ filled @ blank]))
     \<and> output_lines (concat (map (\<lambda>row. row @ [CHR 0x0A])
                 [filled @ blank @ filled @ blank @ filled @ blank,
                  filled @ blank @ blank @ blank @ filled @ blank,
                  filled @ blank @ filled @ blank @ filled @ blank])) =
         [filled @ blank @ filled @ blank @ filled @ blank,
          filled @ blank @ blank @ blank @ filled @ blank,
          filled @ blank @ filled @ blank @ filled @ blank]"
proof
  from construct_consistent [OF assms(1,3)] have 1: "world_ok w1" "grid_shape b0"
    "placement_consistent b0 w1"
    by simp_all
  from 1(1) have "side_map w1 = side_map_init"
    by (simp add: world_ok_def tables_intact_def)
  then have "demo_cells {} b0 w1"
    using 1(3) by (rule fresh_block_demo_cells)
  from demo_installs_run [OF 1(1,2) this, of sides] obtain b w where
    2: "demo_installs sides (b0, w1) = Some (b, w)" "grid_shape b"
      "demo_cells (set sides) b w" "elements w = elements w1" "cout w = cout w1"
    by auto
  from assms(1) have "reverse_side_map_init \<subseteq>\<^sub>m reverse_side_map w0"
    by (simp add: world_ok_def tables_intact_def)
  note ctor = assms(3) [unfolded Block_ctor_intact [OF this], simplified]
  from ctor have 3: "elements w1 = elements w0" "cout w1 = cout w0"
    by auto
  with 2(4) assms(2) have "demo_elements w"
    by (simp add: demo_elements_def)
  from render_demo_cells [OF 2(2) 2(3) [unfolded assms(4)] this] 2(1,5) 3(2)
  show "\<exists>b w w'. demo_installs sides (b0, w1) = Some (b, w) \<and> render b w = Some w'
            \<and> cout w' = cout w0 @ concat (map (\<lambda>row. row @ [CHR 0x0A])
                 [filled @ blank @ filled @ blank @ filled @ blank,
                  filled @ blank @ blank @ blank @ filled @ blank,
                  filled @ blank @ filled @ blank @ filled @ blank])"
    by simp
  show "output_lines (concat (map (\<lambda>row. row @ [CHR 0x0A])
                 [filled @ blank @ filled @ blank @ filled @ blank,
                  filled @ blank @ blank @ blank @ filled @ blank,
                  filled @ blank @ filled @ blank @ filled @ blank])) =
         [filled @ blank @ filled @ blank @ filled @ blank,
          filled @ blank @ blank @ blank @ filled @ blank,
          filled @ blank @ filled @ blank @ filled @ blank]"
    by simp
qed

text \<open>The demo itself: the entry state and the order of the statements of \<^verbatim>\<open>main\<close>.\<close>

theorem demo_render_rows_witness:
  "world_ok initial_world \<and> demo_elements initial_world
   \<and> set [NORTH_WEST, NORTH, NORTH_EAST, WEST, CENTER, EAST, SOUTH_WEST, SOUTH, SOUTH_EAST] = UNIV
   \<and> map_option cout (main initial_world) =
       Some (concat (map (\<lambda>row. row @ [CHR 0x0A])
         [filled @ blank @ filled @ blank @ filled @ blank,
          filled @ blank @ blank @ blank @ filled @ blank,
          filled @ blank @ filled @ blank @ filled @ blank]))"
proof -
  let ?sides = "[NORTH_WEST, NORTH, NORTH_EAST, WEST, CENTER, EAST, SOUTH_WEST, SOUTH, SOUTH_EAST]"
  have u: "set ?sides = UNIV"
    by (simp add: UNIV_Side)
  have c: "Block_ctor initial_world = (fst demo_block, snd demo_block)"
    by (simp add: demo_block_def)
  from demo_render_rows [OF world_ok_initial demo_elements_initial c u] obtain b w w' where
    "demo_installs ?sides (fst demo_block, snd demo_block) = Some (b, w)" "render b w = Some w'"
    "cout w' = cout initial_world @ concat (map (\<lambda>row. row @ [CHR 0x0A])
         [filled @ blank @ filled @ blank @ filled @ blank,
          filled @ blank @ blank @ blank @ filled @ blank,
          filled @ blank @ filled @ blank @ filled @ blank])"
    by blast
  then have "map_option cout (main initial_world) =
       Some (concat (map (\<lambda>row. row @ [CHR 0x0A])
         [filled @ blank @ filled @ blank @ filled @ blank,
          filled @ blank @ blank @ blank @ filled @ blank,
          filled @ blank @ filled @ blank @ filled @ blank]))"
    by (simp add: main_as_installs demo_block_def initial_world_def)
  with world_ok_initial demo_elements_initial u show ?thesis
    by (intro conjI)
qed

end
